theory Spec2Isabelle
  imports Main
begin

section \<open>Values shared by the packages\<close>

text \<open>
  Go errors are values. A plain error carries its message; an error that implements
  \<^verbatim>\<open>awserr.Error\<close> also carries the code that \<^verbatim>\<open>Code()\<close> returns.
  A nil error is \<open>None\<close>.
\<close>

datatype error = Error string | AwsError string string

type_synonym bytes = string
type_synonym path = string

section \<open>The object store (Store over S3)\<close>

text \<open>
  \<^verbatim>\<open>s3iface.S3API\<close> belongs to the AWS SDK, so the answer of \<^verbatim>\<open>GetObject\<close> and of
  \<^verbatim>\<open>PutObject\<close> is a parameter of the model. The SDK answers \<^verbatim>\<open>GetObject\<close> either
  with an error or with an output whose body is a reader; \<open>Body\<close> holds what
  \<^verbatim>\<open>ioutil.ReadAll\<close> obtains from that reader: the bytes read and the error, if any, that
  stopped the read.
\<close>

record GetObjectOutput =
  Body :: "bytes \<times> error option"

record S3API =
  GetObject :: "string \<Rightarrow> string \<Rightarrow> error + GetObjectOutput"
  PutObject :: "string \<Rightarrow> string \<Rightarrow> bytes \<Rightarrow> error option"

record S3Store =
  s3 :: S3API
  bucket :: string




definition Store_Set :: "S3Store \<Rightarrow> string \<Rightarrow> bytes \<Rightarrow> error option" where
  "Store_Set s key v = PutObject (s3 s) (bucket s) key v"



section \<open>The stemcell URL of the environment descriptor\<close>









section \<open>The variables of the director manifest\<close>

text \<open>
  \<^verbatim>\<open>resource.Get\<close> is a function of the \<^verbatim>\<open>resource\<close> package: the two releases it is
  asked for are parameters.
\<close>

record Resource =
  URL :: string
  Version :: string
  SHA1 :: string

datatype var_value = VString string | VTags "string \<rightharpoonup> string"

definition xEnv_vars ::
  "string \<Rightarrow> string \<Rightarrow> string \<Rightarrow> string \<Rightarrow> Resource \<Rightarrow> Resource \<Rightarrow> (string \<rightharpoonup> string)
     \<Rightarrow> (string \<rightharpoonup> var_value)" where
  "xEnv_vars password cert key ca boshResource bpmResource tags =
     [''director_name'' \<mapsto> VString ''bosh'',
      ''admin_password'' \<mapsto> VString password,
      ''director_ssl.certificate'' \<mapsto> VString cert,
      ''director_ssl.private_key'' \<mapsto> VString key,
      ''director_ssl.ca'' \<mapsto> VString ca,
      ''bosh_url'' \<mapsto> VString (URL boshResource),
      ''bosh_version'' \<mapsto> VString (Version boshResource),
      ''bosh_sha1'' \<mapsto> VString (SHA1 boshResource),
      ''bpm_url'' \<mapsto> VString (URL bpmResource),
      ''bpm_version'' \<mapsto> VString (Version bpmResource),
      ''bpm_sha1'' \<mapsto> VString (SHA1 bpmResource),
      ''tags'' \<mapsto> VTags tags]"

section \<open>The operating system as the orchestrator sees it\<close>

text \<open>
  The orchestrator works on temporary files, on the store and on an external process.
  The world holds the regular files and the directories on disk, the number of
  temporary names handed out so far, and the state of the store. Calls that can fail
  for reasons outside the program (creating, writing and closing a temporary file,
  creating a temporary directory) ask \<open>faults\<close> whether this call fails: \<open>tick\<close>
  counts these calls. The \<open>trace\<close> records what the orchestrator did, in order.
\<close>

datatype mode = Blocking | Detached

datatype event =
    StoreGet string
  | StoreSet string bytes
  | Created path
  | CreatedDir path
  | Removed path
  | Exec mode string "string list"

record 's world =
  files :: "path \<rightharpoonup> bytes"
  dirs :: "path set"
  counter :: nat
  faults :: "nat \<Rightarrow> bool"
  tick :: nat
  store :: 's
  trace :: "event list"

text \<open>Temporary names: the temporary directory of the system and a serial number.\<close>

definition digit :: "nat \<Rightarrow> char" where
  "digit n = ''0123456789'' ! n"

fun digits :: "nat \<Rightarrow> string" where
  "digits n = (if n < 10 then [digit n] else digits (n div 10) @ [digit (n mod 10)])"

declare digits.simps [simp del]

definition tmp_name :: "nat \<Rightarrow> path" where
  "tmp_name n = ''/tmp/'' @ digits n"

text \<open>
  \<^verbatim>\<open>filepath.Join\<close> on two elements: empty elements are ignored. (Its cleaning of the
  result changes nothing on the paths built here.)
\<close>

definition Join :: "path \<Rightarrow> string \<Rightarrow> path" where
  "Join a b = (if a = [] then b else if b = [] then a else a @ ''/'' @ b)"

definition next_fault :: "'s world \<Rightarrow> bool \<times> 's world" where
  "next_fault w = (faults w (tick w), w\<lparr>tick := Suc (tick w)\<rparr>)"

definition TempFile :: "'s world \<Rightarrow> (error + path) \<times> 's world" where
  "TempFile w =
     (let (failed, w1) = next_fault w in
      if failed then (Inl (Error ''cannot create temporary file''), w1)
      else
        let name = tmp_name (counter w1) in
        (Inr name,
         w1\<lparr>files := (files w1)(name \<mapsto> []),
            counter := Suc (counter w1),
            trace := trace w1 @ [Created name]\<rparr>))"

definition file_Write :: "path \<Rightarrow> bytes \<Rightarrow> 's world \<Rightarrow> error option \<times> 's world" where
  "file_Write name data w =
     (let (failed, w1) = next_fault w in
      if failed then (Some (Error ''write failed''), w1)
      else (None, w1\<lparr>files := (files w1)(name \<mapsto> data)\<rparr>))"

definition file_Close :: "path \<Rightarrow> 's world \<Rightarrow> error option \<times> 's world" where
  "file_Close name w =
     (let (failed, w1) = next_fault w in
      if failed then (Some (Error ''close failed''), w1) else (None, w1))"

definition TempDir :: "'s world \<Rightarrow> (path \<times> error option) \<times> 's world" where
  "TempDir w =
     (let (failed, w1) = next_fault w in
      if failed then (([], Some (Error ''cannot create temporary directory'')), w1)
      else
        let name = tmp_name (counter w1) in
        ((name, None),
         w1\<lparr>dirs := insert name (dirs w1),
            counter := Suc (counter w1),
            trace := trace w1 @ [CreatedDir name]\<rparr>))"

text \<open>
  \<^verbatim>\<open>os.Remove\<close> is only ever called on the path of a regular file, and its result is
  ignored by every caller: a file at the path is gone afterwards.
\<close>

definition os_Remove :: "path \<Rightarrow> 's world \<Rightarrow> 's world" where
  "os_Remove name w = w\<lparr>files := (files w)(name := None), trace := trace w @ [Removed name]\<rparr>"

definition ReadFile :: "path \<Rightarrow> 's world \<Rightarrow> error + bytes" where
  "ReadFile name w =
     (case files w name of
        None \<Rightarrow> Inl (Error ''no such file or directory'')
      | Some data \<Rightarrow> Inr data)"

text \<open>A deferred call runs when the function returns, whatever it returns.\<close>

definition deferred :: "('w \<Rightarrow> 'w) \<Rightarrow> 'r \<times> 'w \<Rightarrow> 'r \<times> 'w" where
  "deferred cleanup rw = (fst rw, cleanup (snd rw))"

definition discard :: "('w \<Rightarrow> 'r \<times> 'w) \<Rightarrow> 'w \<Rightarrow> 'w" where
  "discard f w = snd (f w)"

definition writeTempFile :: "bytes \<Rightarrow> 's world \<Rightarrow> (path \<times> error option) \<times> 's world" where
  "writeTempFile data w =
     (case TempFile w of
        (Inl err, w1) \<Rightarrow> (([], Some err), w1)
      | (Inr name, w1) \<Rightarrow>
          let (err, w2) = file_Write name data w1;
              (err1, w3) = file_Close name w2;
              err = (if err = None then err1 else err);
              w4 = (if err \<noteq> None then os_Remove name w3 else w3)
          in ((name, err), w4))"

section \<open>The store interface of the orchestrator\<close>

text \<open>
  A value of the interface \<^verbatim>\<open>Store\<close> is its two methods over the state of the store.
\<close>

record 's Store =
  store_Get :: "'s \<Rightarrow> string \<Rightarrow> bytes \<times> error option"
  store_Set :: "'s \<Rightarrow> string \<Rightarrow> bytes \<Rightarrow> error option \<times> 's"

definition Get_call :: "'s Store \<Rightarrow> string \<Rightarrow> 's world \<Rightarrow> (bytes \<times> error option) \<times> 's world" where
  "Get_call st key w = (store_Get st (store w) key, w\<lparr>trace := trace w @ [StoreGet key]\<rparr>)"

definition Set_call :: "'s Store \<Rightarrow> string \<Rightarrow> bytes \<Rightarrow> 's world \<Rightarrow> error option \<times> 's world" where
  "Set_call st key data w =
     (let (err, s') = store_Set st (store w) key data
      in (err, w\<lparr>store := s', trace := trace w @ [StoreSet key data]\<rparr>))"

definition upload :: "'s Store \<Rightarrow> string \<Rightarrow> path \<Rightarrow> 's world \<Rightarrow> error option \<times> 's world" where
  "upload st key name w =
     deferred (os_Remove name)
       (case ReadFile name w of
          Inl err \<Rightarrow> (Some err, w)
        | Inr data \<Rightarrow> Set_call st key data w)"

definition writeToDisk ::
  "'s Store \<Rightarrow> string \<Rightarrow> 's world
     \<Rightarrow> (error + path \<times> ('s world \<Rightarrow> error option \<times> 's world)) \<times> 's world" where
  "writeToDisk st key w =
     (case Get_call st key w of
        ((data, Some err), w1) \<Rightarrow> (Inl err, w1)
      | ((data, None), w1) \<Rightarrow>
          let ((name, err), w2) =
                (if length data = 0
                 then (case TempDir w1 of ((dir, err), w2) \<Rightarrow> ((Join dir key, err), w2))
                 else writeTempFile data w1)
          in (case err of
                Some e \<Rightarrow> (Inl e, w2)
              | None \<Rightarrow> (Inr (name, upload st key name), w2)))"

section \<open>The external process and the sink\<close>

text \<open>
  \<^verbatim>\<open>execCmd\<close> is a field of the \<^verbatim>\<open>CLI\<close> struct (\<^verbatim>\<open>exec.Command\<close> by default). What the
  command it builds does when it is driven is outside the program: \<open>run_error\<close> is
  the result of \<^verbatim>\<open>cmd.Run()\<close>, \<open>effect\<close> what the process has done to the files by
  then and \<open>stdout_data\<close> what it has written on its standard output; \<open>pipe_error\<close>
  and \<open>start_error\<close> are the results of \<^verbatim>\<open>cmd.StdoutPipe()\<close> and \<^verbatim>\<open>cmd.Start()\<close>, and
  \<open>scan_lines\<close> is the sequence of lines that \<^verbatim>\<open>scanner.Scan()\<close> delivers before it
  returns false.
\<close>

record process =
  pipe_error :: "error option"
  start_error :: "error option"
  scan_lines :: "string list"
  stdout_data :: bytes
  effect :: "(path \<rightharpoonup> bytes) \<Rightarrow> (path \<rightharpoonup> bytes)"
  run_error :: "error option"

record CLI =
  execCmd :: "string \<Rightarrow> string list \<Rightarrow> process"
  boshPath :: string

text \<open>
  An \<^verbatim>\<open>io.Writer\<close>: what has been written to it, and whether it refuses the next
  write, which may depend on what it holds and on what is written.
\<close>

record writer =
  written :: "string list"
  refuses :: "string list \<Rightarrow> string \<Rightarrow> error option"

definition Write :: "writer \<Rightarrow> string \<Rightarrow> error option \<times> writer" where
  "Write k s =
     (case refuses k (written k) s of
        Some err \<Rightarrow> (Some err, k)
      | None \<Rightarrow> (None, k\<lparr>written := written k @ [s]\<rparr>))"

definition command :: "CLI \<Rightarrow> mode \<Rightarrow> string list \<Rightarrow> 's world \<Rightarrow> process \<times> 's world" where
  "command c m args w =
     (execCmd c (boshPath c) args, w\<lparr>trace := trace w @ [Exec m (boshPath c) args]\<rparr>)"

definition cmd_Run :: "process \<Rightarrow> 's world \<Rightarrow> error option \<times> 's world" where
  "cmd_Run cmd w = (run_error cmd, w\<lparr>files := effect cmd (files w)\<rparr>)"

text \<open>\<^verbatim>\<open>strings.Contains\<close> and \<^verbatim>\<open>strings.Join\<close>.\<close>

fun has_prefix :: "string \<Rightarrow> string \<Rightarrow> bool" where
  "has_prefix s [] = True"
| "has_prefix [] (p # ps) = False"
| "has_prefix (c # cs) (p # ps) = (c = p \<and> has_prefix cs ps)"

fun Contains :: "string \<Rightarrow> string \<Rightarrow> bool" where
  "Contains [] sub = has_prefix [] sub"
| "Contains (c # cs) sub = (has_prefix (c # cs) sub \<or> Contains cs sub)"

fun strings_Join :: "string list \<Rightarrow> string \<Rightarrow> string" where
  "strings_Join [] sep = []"
| "strings_Join [x] sep = x"
| "strings_Join (x # y # ys) sep = x @ sep @ strings_Join (y # ys) sep"

definition marker :: string where
  "marker = ''Preparing deployment''"

definition no_task_start :: "string list \<Rightarrow> error" where
  "no_task_start flags =
     Error (''Didn'' @ [CHR 0x27] @
            ''t detect successful task start in BOSH comand: bosh-cli '' @
            strings_Join flags '' '')"

text \<open>The scanning loop of the detached command, over the lines still to come.\<close>

fun scan_loop :: "string list \<Rightarrow> writer \<Rightarrow> string list \<Rightarrow> error option \<times> writer" where
  "scan_loop [] stdout flags = (Some (no_task_start flags), stdout)"
| "scan_loop (text # rest) stdout flags =
     (case Write stdout (text @ [CHR 0x0A]) of
        (Some err, stdout1) \<Rightarrow> (Some err, stdout1)
      | (None, stdout1) \<Rightarrow>
          if Contains text marker
          then (None, snd (Write stdout1 (''Task started, detaching output'' @ [CHR 0x0A])))
          else scan_loop rest stdout1 flags)"

text \<open>
  With a sink that is not a file, \<^verbatim>\<open>cmd.Run()\<close> copies the standard output of the
  process to the sink, and reports the failure of the process before a failure of the copy.
\<close>

definition boshCommand ::
  "CLI \<Rightarrow> writer \<Rightarrow> string list \<Rightarrow> 's world \<Rightarrow> (error option \<times> writer) \<times> 's world" where
  "boshCommand c stdout flags w =
     (let (cmd, w1) = command c Blocking flags w;
          (err, w2) = cmd_Run cmd w1;
          (werr, stdout1) = Write stdout (stdout_data cmd)
      in ((if err = None then werr else err, stdout1), w2))"

text \<open>
  The detached command returns while the process is still running: what the process
  does to the files later is not an effect of the call.
\<close>

definition detachedBoshCommand ::
  "CLI \<Rightarrow> writer \<Rightarrow> string list \<Rightarrow> 's world \<Rightarrow> (error option \<times> writer) \<times> 's world" where
  "detachedBoshCommand c stdout flags w =
     (let (cmd, w1) = command c Detached flags w in
      case pipe_error cmd of
        Some err \<Rightarrow> ((Some err, stdout), w1)
      | None \<Rightarrow>
          (case start_error cmd of
             Some err \<Rightarrow> ((Some err, stdout), w1)
           | None \<Rightarrow> (scan_loop (scan_lines cmd) stdout flags, w1)))"

section \<open>The orchestrator\<close>

text \<open>
  A value of the interface \<^verbatim>\<open>IAASEnvironment\<close> is given by what each of its methods
  returns; an orchestrator operation calls at most one of them, once, before it touches
  anything. \<^verbatim>\<open>resource.Get\<close> and \<^verbatim>\<open>yaml.Interpolate\<close> are functions of packages of
  the repository that the orchestrator imports.
\<close>

record IAASEnvironment =
  ConfigureDirectorManifestCPI :: "string \<times> error option"
  ConfigureDirectorCloudConfig :: "string \<times> error option"
  ConfigureConcourseStemcell :: "string \<times> error option"
  IAASCheck :: string

datatype release = BOSHRelease | BPMRelease

record packages =
  resource_Get :: "release \<Rightarrow> Resource"
  yaml_Interpolate :: "string \<Rightarrow> string \<Rightarrow> (string \<rightharpoonup> var_value) \<Rightarrow> string \<times> error option"

definition stateFilename :: string where
  "stateFilename = ''state.json''"

definition varsFilename :: string where
  "varsFilename = ''vars.yaml''"

definition xEnv ::
  "packages \<Rightarrow> CLI \<Rightarrow> string \<Rightarrow> 's Store \<Rightarrow> IAASEnvironment \<Rightarrow> string \<Rightarrow> string \<Rightarrow> string
     \<Rightarrow> string \<Rightarrow> (string \<rightharpoonup> string) \<Rightarrow> 's world \<Rightarrow> error option \<times> 's world" where
  "xEnv i c action st config password cert key ca tags w =
     (case ConfigureDirectorManifestCPI config of
        (manifest, Some err) \<Rightarrow> (Some err, w)
      | (manifest, None) \<Rightarrow>
          let boshResource = resource_Get i BOSHRelease;
              bpmResource = resource_Get i BPMRelease;
              vars = xEnv_vars password cert key ca boshResource bpmResource tags
          in
          (case yaml_Interpolate i manifest [] vars of
             (manifest, Some err) \<Rightarrow> (Some err, w)
           | (manifest, None) \<Rightarrow>
               (case writeToDisk st stateFilename w of
                  (Inl err, w1) \<Rightarrow> (Some err, w1)
                | (Inr (statePath, uploadState), w1) \<Rightarrow>
                    deferred (discard uploadState)
                      (case writeToDisk st varsFilename w1 of
                         (Inl err, w2) \<Rightarrow> (Some err, w2)
                       | (Inr (varsPath, uploadVars), w2) \<Rightarrow>
                           deferred (discard uploadVars)
                             (case writeTempFile manifest w2 of
                                ((manifestPath, Some err), w3) \<Rightarrow> (Some err, w3)
                              | ((manifestPath, None), w3) \<Rightarrow>
                                  deferred (os_Remove manifestPath)
                                    (let (cmd, w4) =
                                           command c Blocking
                                             [action, ''--state='' @ statePath,
                                              ''--vars-store='' @ varsPath, manifestPath] w3
                                     in cmd_Run cmd w4))))))"

definition DeleteEnv ::
  "packages \<Rightarrow> CLI \<Rightarrow> 's Store \<Rightarrow> IAASEnvironment \<Rightarrow> string \<Rightarrow> string \<Rightarrow> string
     \<Rightarrow> string \<Rightarrow> (string \<rightharpoonup> string) \<Rightarrow> 's world \<Rightarrow> error option \<times> 's world" where
  "DeleteEnv i c st config password cert key ca tags w =
     xEnv i c ''delete-env'' st config password cert key ca tags w"

definition CreateEnv ::
  "packages \<Rightarrow> CLI \<Rightarrow> 's Store \<Rightarrow> IAASEnvironment \<Rightarrow> string \<Rightarrow> string \<Rightarrow> string
     \<Rightarrow> string \<Rightarrow> (string \<rightharpoonup> string) \<Rightarrow> 's world \<Rightarrow> error option \<times> 's world" where
  "CreateEnv i c st config password cert key ca tags w =
     xEnv i c ''create-env'' st config password cert key ca tags w"

definition UpdateCloudConfig ::
  "CLI \<Rightarrow> IAASEnvironment \<Rightarrow> string \<Rightarrow> string \<Rightarrow> string \<Rightarrow> 's world \<Rightarrow> error option \<times> 's world" where
  "UpdateCloudConfig c config ip password ca w =
     (case ConfigureDirectorCloudConfig config of
        (cloudConfig, Some err) \<Rightarrow> (Some err, w)
      | (cloudConfig, None) \<Rightarrow>
          (case writeTempFile cloudConfig w of
             ((cloudConfigPath, Some err), w1) \<Rightarrow> (Some err, w1)
           | ((cloudConfigPath, None), w1) \<Rightarrow>
               deferred (os_Remove cloudConfigPath)
                 (case writeTempFile ca w1 of
                    ((caPath, Some err), w2) \<Rightarrow> (Some err, w2)
                  | ((caPath, None), w2) \<Rightarrow>
                      deferred (os_Remove caPath)
                        (let ip = ''https://'' @ ip;
                             (cmd, w3) =
                               command c Blocking
                                 [''--non-interactive'', ''--environment'', ip, ''--ca-cert'',
                                  caPath, ''--client'', ''admin'', ''--client-secret'', password,
                                  ''update-cloud-config'', cloudConfigPath] w2
                         in cmd_Run cmd w3))))"

definition Locks ::
  "CLI \<Rightarrow> IAASEnvironment \<Rightarrow> string \<Rightarrow> string \<Rightarrow> string \<Rightarrow> 's world \<Rightarrow> (error + bytes) \<times> 's world" where
  "Locks c config ip password ca w =
     (case writeTempFile ca w of
        ((caPath, Some err), w1) \<Rightarrow> (Inl err, w1)
      | ((caPath, None), w1) \<Rightarrow>
          deferred (os_Remove caPath)
            (let (cmd, w2) =
                   command c Blocking
                     [''--environment'', ip, ''--ca-cert'', caPath, ''--client'', ''admin'',
                      ''--client-secret'', password, ''locks'', ''--json''] w1;
                 (err, w3) = cmd_Run cmd w2
             in (case err of
                   Some e \<Rightarrow> (Inl e, w3)
                 | None \<Rightarrow> (Inr (stdout_data cmd), w3))))"

definition UploadConcourseStemcell ::
  "CLI \<Rightarrow> IAASEnvironment \<Rightarrow> string \<Rightarrow> string \<Rightarrow> string \<Rightarrow> 's world \<Rightarrow> error option \<times> 's world" where
  "UploadConcourseStemcell c config ip password ca w =
     (case ConfigureConcourseStemcell config of
        (stemcell, Some err) \<Rightarrow> (Some err, w)
      | (stemcell, None) \<Rightarrow>
          (case writeTempFile ca w of
             ((caPath, Some err), w1) \<Rightarrow> (Some err, w1)
           | ((caPath, None), w1) \<Rightarrow>
               deferred (os_Remove caPath)
                 (let ip = ''https://'' @ ip;
                      (cmd, w2) =
                        command c Blocking
                          [''--non-interactive'', ''--environment'', ip, ''--ca-cert'', caPath,
                           ''--client'', ''admin'', ''--client-secret'', password,
                           ''upload-stemcell'', stemcell] w1
                  in cmd_Run cmd w2)))"

definition Recreate ::
  "CLI \<Rightarrow> IAASEnvironment \<Rightarrow> string \<Rightarrow> string \<Rightarrow> string \<Rightarrow> 's world \<Rightarrow> error option \<times> 's world" where
  "Recreate c config ip password ca w =
     (case writeTempFile ca w of
        ((caPath, Some err), w1) \<Rightarrow> (Some err, w1)
      | ((caPath, None), w1) \<Rightarrow>
          deferred (os_Remove caPath)
            (let ip = ''https://'' @ ip;
                 (cmd, w2) =
                   command c Blocking
                     [''--non-interactive'', ''--environment'', ip, ''--ca-cert'', caPath,
                      ''--client'', ''admin'', ''--client-secret'', password,
                      ''--deployment'', ''concourse'', ''recreate''] w1
             in cmd_Run cmd w2))"

definition RunAuthenticatedCommand ::
  "CLI \<Rightarrow> string \<Rightarrow> string \<Rightarrow> string \<Rightarrow> string \<Rightarrow> bool \<Rightarrow> writer \<Rightarrow> string list \<Rightarrow> 's world
     \<Rightarrow> (error option \<times> writer) \<times> 's world" where
  "RunAuthenticatedCommand c action ip password ca detach stdout flags w =
     (case writeTempFile ca w of
        ((caPath, Some err), w1) \<Rightarrow> ((Some err, stdout), w1)
      | ((caPath, None), w1) \<Rightarrow>
          deferred (os_Remove caPath)
            (let ip = ''https://'' @ ip;
                 authFlags =
                   [''--non-interactive'', ''--environment'', ip, ''--ca-cert'', caPath,
                    ''--client'', ''admin'', ''--client-secret'', password,
                    ''--deployment'', ''concourse'', action];
                 flags = authFlags @ flags
             in if detach \<and> action = ''deploy''
                then detachedBoshCommand c stdout flags w1
                else boshCommand c stdout flags w1))"

text \<open>The events that a call has added to the trace.\<close>

definition events :: "'s world \<Rightarrow> 's world \<Rightarrow> event list" where
  "events w w' = drop (length (trace w)) (trace w')"

text \<open>A stretch of the trace in which no store is written and no command is built.\<close>

definition quiet :: "event list \<Rightarrow> bool" where
  "quiet es \<longleftrightarrow> (\<forall>k d. StoreSet k d \<notin> set es) \<and> (\<forall>m b a. Exec m b a \<notin> set es)"


text \<open>
  Every path at which the call has created a temporary file holds no file when the call
  has returned.
\<close>

definition scratch_removed :: "'s world \<Rightarrow> 's world \<Rightarrow> bool" where
  "scratch_removed w w' \<longleftrightarrow> (\<forall>p. Created p \<in> set (events w w') \<longrightarrow> files w' p = None)"

text \<open>
  A sink that refuses no write, and the lines of a process as the detached command
  forwards them: each followed by a newline.
\<close>

definition accepts :: "writer \<Rightarrow> bool" where
  "accepts k \<longleftrightarrow> (\<forall>h s. refuses k h s = None)"

definition forwarded :: "string list \<Rightarrow> string list" where
  "forwarded ls = map (\<lambda>text. text @ [CHR 0x0A]) ls"

section \<open>Concrete inputs\<close>





text \<open>
  A store kept in a map, in which an absent key reads as empty; a store that reads like
  it and refuses every write; a world with an empty disk in which no call of the
  operating system fails, with an empty store and with a store that holds a state; an
  external process that leaves the files alone and returns a given result; an
  environment and packages that render a fixed manifest.
\<close>

definition map_store :: "(string \<rightharpoonup> bytes) Store" where
  "map_store =
     \<lparr>store_Get = (\<lambda>s k. case s k of None \<Rightarrow> ([], None) | Some v \<Rightarrow> (v, None)),
      store_Set = (\<lambda>s k v. (None, s(k \<mapsto> v)))\<rparr>"

definition read_only_store :: "(string \<rightharpoonup> bytes) Store" where
  "read_only_store =
     \<lparr>store_Get = store_Get map_store,
      store_Set = (\<lambda>s k v. (Some (Error ''put failed''), s))\<rparr>"

definition fresh_world :: "(string \<rightharpoonup> bytes) world" where
  "fresh_world =
     \<lparr>files = Map.empty, dirs = {}, counter = 0, faults = (\<lambda>n. False), tick = 0,
      store = Map.empty, trace = []\<rparr>"

definition resumed_world :: "(string \<rightharpoonup> bytes) world" where
  "resumed_world = fresh_world\<lparr>store := [''state.json'' \<mapsto> ''{}'']\<rparr>"

definition quiet_process :: "error option \<Rightarrow> process" where
  "quiet_process err =
     \<lparr>pipe_error = None, start_error = None, scan_lines = [], stdout_data = [],
      effect = (\<lambda>fs. fs), run_error = err\<rparr>"

definition failing_cli :: CLI where
  "failing_cli =
     \<lparr>execCmd = (\<lambda>bin args. quiet_process (Some (Error ''exit status 1''))), boshPath = ''bosh''\<rparr>"

definition passing_cli :: CLI where
  "passing_cli = \<lparr>execCmd = (\<lambda>bin args. quiet_process None), boshPath = ''bosh''\<rparr>"

definition plain_config :: IAASEnvironment where
  "plain_config =
     \<lparr>ConfigureDirectorManifestCPI = (''manifest'', None),
      ConfigureDirectorCloudConfig = (''cloud-config'', None),
      ConfigureConcourseStemcell = (''stemcell'', None),
      IAASCheck = ''GCP''\<rparr>"

definition plain_packages :: packages where
  "plain_packages =
     \<lparr>resource_Get = (\<lambda>r. \<lparr>URL = ''url'', Version = ''1'', SHA1 = ''sha''\<rparr>),
      yaml_Interpolate = (\<lambda>m ops vars. (m, None))\<rparr>"


text \<open>
  A sink that accepts every write; a process that reaches the deployment after one line
  and goes on; a process whose output ends without that line.
\<close>

definition plain_sink :: writer where
  "plain_sink = \<lparr>written = [], refuses = (\<lambda>h s. None)\<rparr>"

definition deploying_cli :: CLI where
  "deploying_cli =
     \<lparr>execCmd = (\<lambda>bin args. (quiet_process None)
        \<lparr>scan_lines := [''Task 1'', ''Preparing deployment: started'', ''Compiling packages'']\<rparr>),
      boshPath = ''bosh''\<rparr>"

definition stalling_cli :: CLI where
  "stalling_cli =
     \<lparr>execCmd = (\<lambda>bin args. (quiet_process (Some (Error ''exit status 1'')))
        \<lparr>scan_lines := [''Task 1'', ''Error: timed out'']\<rparr>),
      boshPath = ''bosh''\<rparr>"

section \<open>The object store: absent keys and failures\<close>



section \<open>The stemcell URL\<close>






section \<open>The manifest variables\<close>


section \<open>Temporary names\<close>

lemma digit_slash: "n < 10 \<Longrightarrow> digit n \<noteq> CHR ''/''"
proof -
  assume "n < 10"
  then have "digit n \<in> set ''0123456789''"
    unfolding digit_def by (intro nth_mem) simp
  then show ?thesis by auto
qed

lemma digit_inj: "a < 10 \<Longrightarrow> b < 10 \<Longrightarrow> digit a = digit b \<Longrightarrow> a = b"
proof -
  assume a: "a < 10" and b: "b < 10" and e: "digit a = digit b"
  have d: "distinct ''0123456789''" by simp
  from a b e show ?thesis
    unfolding digit_def using nth_eq_iff_index_eq [OF d, of a b] by simp
qed

lemma digits_nonempty: "digits n \<noteq> []"
  by (subst digits.simps) simp

lemma digits_no_slash: "CHR ''/'' \<notin> set (digits n)"
proof (induction n rule: digits.induct)
  case (1 n)
  show ?case
  proof (cases "n < 10")
    case True
    then show ?thesis using digit_slash [of n] by (subst digits.simps) auto
  next
    case False
    have "n mod 10 < 10" by simp
    then have "digit (n mod 10) \<noteq> CHR ''/''" by (rule digit_slash)
    with False 1 show ?thesis by (subst digits.simps) auto
  qed
qed

lemma digits_inj: "digits n = digits m \<Longrightarrow> n = m"
proof (induction n arbitrary: m rule: digits.induct)
  case (1 n)
  show ?case
  proof (cases "n < 10")
    case n: True
    show ?thesis
    proof (cases "m < 10")
      case True
      with n 1(2) show ?thesis
        by (simp add: digits.simps [of n] digits.simps [of m] digit_inj)
    next
      case False
      with n 1(2) show ?thesis
        using digits_nonempty [of "m div 10"]
        by (simp add: digits.simps [of n] digits.simps [of m])
    qed
  next
    case n: False
    show ?thesis
    proof (cases "m < 10")
      case True
      with n 1(2) show ?thesis
        using digits_nonempty [of "n div 10"]
        by (simp add: digits.simps [of n] digits.simps [of m])
    next
      case False
      with n 1(2) have e: "digits (n div 10) = digits (m div 10)"
          and d: "digit (n mod 10) = digit (m mod 10)"
        by (simp_all add: digits.simps [of n] digits.simps [of m])
      from 1(1) [OF n e] have q: "n div 10 = m div 10" .
      from d have r: "n mod 10 = m mod 10" by (intro digit_inj) simp_all
      from q r show ?thesis by (metis div_mult_mod_eq)
    qed
  qed
qed

lemma tmp_name_inj [simp]: "tmp_name n = tmp_name m \<longleftrightarrow> n = m"
proof
  assume "tmp_name n = tmp_name m"
  then have "digits n = digits m" by (simp add: tmp_name_def)
  then show "n = m" by (rule digits_inj)
qed simp

lemma tmp_name_not_child [simp]:
  "tmp_name n \<noteq> tmp_name m @ CHR ''/'' # s" "tmp_name m @ CHR ''/'' # s \<noteq> tmp_name n"
proof -
  have "digits n \<noteq> digits m @ CHR ''/'' # s"
  proof
    assume "digits n = digits m @ CHR ''/'' # s"
    then have "CHR ''/'' \<in> set (digits n)" by simp
    then show False by (simp add: digits_no_slash)
  qed
  then show "tmp_name n \<noteq> tmp_name m @ CHR ''/'' # s" by (simp add: tmp_name_def)
  then show "tmp_name m @ CHR ''/'' # s \<noteq> tmp_name n" by metis
qed

lemma first_separator:
  "c \<notin> set xs \<Longrightarrow> c \<notin> set ys \<Longrightarrow> xs @ c # s = ys @ c # t \<Longrightarrow> xs = ys \<and> s = t"
proof (induction xs arbitrary: ys)
  case Nil
  then show ?case by (cases ys) auto
next
  case (Cons x xs)
  then show ?case by (cases ys) auto
qed

lemma tmp_name_child_inj [simp]:
  "tmp_name n @ CHR ''/'' # s = tmp_name m @ CHR ''/'' # t \<longleftrightarrow> n = m \<and> s = t"
proof
  assume "tmp_name n @ CHR ''/'' # s = tmp_name m @ CHR ''/'' # t"
  then have "digits n @ CHR ''/'' # s = digits m @ CHR ''/'' # t"
    by (simp add: tmp_name_def)
  then have "digits n = digits m \<and> s = t"
    by (rule first_separator [OF digits_no_slash digits_no_slash])
  then show "n = m \<and> s = t" by (simp add: digits_inj)
qed simp

lemma wTF_success:
  assumes "writeTempFile data w = ((name, None), w1)"
  shows "name = tmp_name (counter w)" and "files w1 = (files w)(name \<mapsto> data)"
    and "trace w1 = trace w @ [Created name]" and "counter w1 = Suc (counter w)"
    and "dirs w1 = dirs w" and "store w1 = store w"
  using assms
  by (auto simp: writeTempFile_def TempFile_def file_Write_def file_Close_def next_fault_def
        os_Remove_def Let_def split: if_splits)

lemma wTF_failure:
  assumes "writeTempFile data w = ((name, Some e), w1)"
  shows "\<exists>es. trace w1 = trace w @ es \<and> (\<forall>p. Created p \<in> set es \<longrightarrow> files w1 p = None)
           \<and> quiet es \<and> store w1 = store w"
  using assms
  by (auto simp: writeTempFile_def TempFile_def file_Write_def file_Close_def next_fault_def
        os_Remove_def Let_def quiet_def split: if_splits)

lemma upload_world:
  "trace (snd (upload st key name w)) =
     trace w @ (case files w name of None \<Rightarrow> [] | Some d \<Rightarrow> [StoreSet key d]) @ [Removed name]"
  "files (snd (upload st key name w)) = (files w)(name := None)"
  by (auto simp: upload_def deferred_def ReadFile_def Set_call_def os_Remove_def Let_def
        split: option.splits prod.splits)

lemma wTD_success:
  assumes "writeToDisk st key w = (Inr (name, up), w1)"
  shows "up = upload st key name"
    and "snd (store_Get st (store w) key) = None"
    and "counter w1 = Suc (counter w)"
    and "store w1 = store w"
    and "fst (store_Get st (store w) key) = [] \<Longrightarrow>
           name = Join (tmp_name (counter w)) key \<and> files w1 = files w \<and>
           dirs w1 = insert (tmp_name (counter w)) (dirs w) \<and>
           trace w1 = trace w @ [StoreGet key, CreatedDir (tmp_name (counter w))]"
    and "fst (store_Get st (store w) key) \<noteq> [] \<Longrightarrow>
           name = tmp_name (counter w) \<and>
           files w1 = (files w)(name \<mapsto> fst (store_Get st (store w) key)) \<and>
           dirs w1 = dirs w \<and>
           trace w1 = trace w @ [StoreGet key, Created name]"
  using assms
  by (auto simp: writeToDisk_def Get_call_def TempDir_def next_fault_def Let_def
        dest: wTF_success split: if_splits option.splits prod.splits)

lemma wTD_failure:
  assumes "writeToDisk st key w = (Inl e, w1)"
  shows "\<exists>es. trace w1 = trace w @ es \<and> (\<forall>p. Created p \<in> set es \<longrightarrow> files w1 p = None)
           \<and> quiet es"
proof (cases "store_Get st (store w) key")
  case (Pair data err)
  let ?w0 = "w\<lparr>trace := trace w @ [StoreGet key]\<rparr>"
  show ?thesis
  proof (cases err)
    case (Some e')
    with Pair assms have "w1 = ?w0"
      by (simp add: writeToDisk_def Get_call_def)
    then show ?thesis by (simp add: quiet_def)
  next
    case None
    show ?thesis
    proof (cases "data = []")
      case True
      with None Pair assms have "trace w1 = trace w @ [StoreGet key]"
        by (auto simp: writeToDisk_def Get_call_def TempDir_def next_fault_def Let_def
              split: if_splits)
      then show ?thesis by (simp add: quiet_def)
    next
      case False
      with None Pair assms obtain name where "writeTempFile data ?w0 = ((name, Some e), w1)"
        by (auto simp: writeToDisk_def Get_call_def Let_def split: prod.splits option.splits)
      from wTF_failure [OF this] obtain es where
        "trace w1 = trace w @ StoreGet key # es" "\<forall>p. Created p \<in> set es \<longrightarrow> files w1 p = None"
        "quiet es"
        by auto
      then show ?thesis by (intro exI [of _ "StoreGet key # es"]) (simp add: quiet_def)
    qed
  qed
qed

section \<open>The lifecycle operations\<close>

lemma events_append: "trace w' = trace w @ es \<Longrightarrow> events w w' = es"
  by (simp add: events_def)

lemma tmp_name_nonempty [simp]: "tmp_name n \<noteq> []"
  by (simp add: tmp_name_def)

lemma wTF_failure_files:
  assumes "writeTempFile data w = ((name, Some e), w1)"
  shows "p \<noteq> tmp_name (counter w) \<Longrightarrow> files w1 p = files w p"
  using assms
  by (auto simp: writeTempFile_def TempFile_def file_Write_def file_Close_def next_fault_def
        os_Remove_def Let_def split: if_splits)

lemma wTD_failure_files:
  assumes "writeToDisk st key w = (Inl e, w1)"
  shows "p \<noteq> tmp_name (counter w) \<Longrightarrow> files w1 p = files w p"
  using assms
  by (auto simp: writeToDisk_def Get_call_def TempDir_def next_fault_def Let_def
        dest: wTF_failure_files split: if_splits option.splits prod.splits)

lemma xEnv_reaches_process:
  assumes cfg: "ConfigureDirectorManifestCPI config = (manifest0, None)"
    and itp: "yaml_Interpolate i manifest0 []
                (xEnv_vars password cert key ca (resource_Get i BOSHRelease)
                   (resource_Get i BPMRelease) tags) = (manifest, None)"
    and st: "writeToDisk st stateFilename w = (Inr (statePath, uploadState), w1)"
    and vr: "writeToDisk st varsFilename w1 = (Inr (varsPath, uploadVars), w2)"
    and mf: "writeTempFile manifest w2 = ((manifestPath, None), w3)"
  shows "xEnv i c action st config password cert key ca tags w =
           (run_error (execCmd c (boshPath c)
              [action, ''--state='' @ statePath, ''--vars-store='' @ varsPath, manifestPath]),
            discard uploadState (discard uploadVars (os_Remove manifestPath
              (w3\<lparr>trace := trace w3 @ [Exec Blocking (boshPath c)
                    [action, ''--state='' @ statePath, ''--vars-store='' @ varsPath, manifestPath]],
                  files := effect (execCmd c (boshPath c)
                    [action, ''--state='' @ statePath, ''--vars-store='' @ varsPath, manifestPath])
                    (files w3)\<rparr>))))"
  by (simp add: xEnv_def cfg itp st vr mf deferred_def command_def cmd_Run_def Let_def)

lemma scratch_paths_distinct:
  assumes st: "writeToDisk st stateFilename w = (Inr (statePath, uploadState), w1)"
    and vr: "writeToDisk st varsFilename w1 = (Inr (varsPath, uploadVars), w2)"
    and mf: "writeTempFile manifest w2 = ((manifestPath, None), w3)"
  shows "statePath \<noteq> varsPath" "statePath \<noteq> manifestPath" "varsPath \<noteq> manifestPath"
proof -
  have s: "statePath = tmp_name (counter w) \<or> statePath = tmp_name (counter w) @ CHR ''/'' # stateFilename"
    using wTD_success(5,6) [OF st]
    by (cases "fst (store_Get st (store w) stateFilename) = []") (auto simp: Join_def stateFilename_def)
  have v: "varsPath = tmp_name (Suc (counter w)) \<or> varsPath = tmp_name (Suc (counter w)) @ CHR ''/'' # varsFilename"
    using wTD_success(5,6) [OF vr] wTD_success(3) [OF st]
    by (cases "fst (store_Get st (store w1) varsFilename) = []") (auto simp: Join_def varsFilename_def)
  have m: "manifestPath = tmp_name (Suc (Suc (counter w)))"
    using wTF_success(1) [OF mf] wTD_success(3) [OF st] wTD_success(3) [OF vr] by simp
  from s v show "statePath \<noteq> varsPath" by auto
  from s m show "statePath \<noteq> manifestPath" by auto
  from v m show "varsPath \<noteq> manifestPath" by auto
qed

lemma wTD_Get_only:
  assumes "store_Get st' = store_Get st"
  shows "writeToDisk st' key w =
           (case writeToDisk st key w of
              (Inl e, w1) \<Rightarrow> (Inl e, w1)
            | (Inr (name, up), w1) \<Rightarrow> (Inr (name, upload st' key name), w1))"
  by (auto simp: writeToDisk_def Get_call_def assms Let_def split: prod.splits option.splits)

lemma xEnv_error_Get_only:
  assumes "store_Get st' = store_Get st"
  shows "fst (xEnv i c action st' config password cert key ca tags w) =
         fst (xEnv i c action st config password cert key ca tags w)"
  by (simp add: xEnv_def wTD_Get_only [OF assms] deferred_def Let_def
        split: prod.splits option.splits sum.splits)

lemma scratch_removedI:
  "trace w' = trace w @ es \<Longrightarrow> (\<And>p. Created p \<in> set es \<Longrightarrow> files w' p = None)
     \<Longrightarrow> scratch_removed w w'"
  by (simp add: scratch_removed_def events_def)

lemma wTD_success_trace:
  assumes "writeToDisk st key w = (Inr (name, up), w1)"
  shows "\<exists>es. trace w1 = trace w @ es \<and> (\<forall>p. Created p \<in> set es \<longrightarrow> p = name) \<and> quiet es"
  using wTD_success(5,6) [OF assms]
  by (cases "fst (store_Get st (store w) key) = []") (auto simp: quiet_def)

lemma upload_trace:
  "\<exists>es. trace (discard (upload st key name) w) = trace w @ es \<and> (\<forall>p. Created p \<notin> set es) \<and>
        (\<forall>m b a. Exec m b a \<notin> set es) \<and>
        (\<forall>k d. StoreSet k d \<in> set es \<longleftrightarrow> k = key \<and> files w name = Some d)"
  by (cases "files w name") (auto simp: discard_def upload_world)

lemma upload_files: "files (discard (upload st key name) w) = (files w)(name := None)"
  by (simp add: discard_def upload_world)

text \<open>The six ways through xEnv.\<close>

lemma xEnv_paths:
  fixes i :: packages and c :: CLI and st :: "'s Store" and w :: "'s world"
    and action password cert key ca :: string and config :: IAASEnvironment
    and tags :: "string \<rightharpoonup> string"
  defines "r \<equiv> xEnv i c action st config password cert key ca tags w"
  defines "vars \<equiv> xEnv_vars password cert key ca (resource_Get i BOSHRelease)
                   (resource_Get i BPMRelease) tags"
  obtains
    (config) manifest0 e where "ConfigureDirectorManifestCPI config = (manifest0, Some e)"
      "r = (Some e, w)"
  | (interpolate) manifest0 manifest e where "ConfigureDirectorManifestCPI config = (manifest0, None)"
      "yaml_Interpolate i manifest0 [] vars = (manifest, Some e)" "r = (Some e, w)"
  | (state) manifest0 manifest e w1 where "ConfigureDirectorManifestCPI config = (manifest0, None)"
      "yaml_Interpolate i manifest0 [] vars = (manifest, None)"
      "writeToDisk st stateFilename w = (Inl e, w1)" "r = (Some e, w1)"
  | (vars) manifest0 manifest statePath uploadState w1 e w2 where
      "ConfigureDirectorManifestCPI config = (manifest0, None)"
      "yaml_Interpolate i manifest0 [] vars = (manifest, None)"
      "writeToDisk st stateFilename w = (Inr (statePath, uploadState), w1)"
      "writeToDisk st varsFilename w1 = (Inl e, w2)"
      "r = (Some e, discard uploadState w2)"
  | (manifest) manifest0 manifest statePath uploadState w1 varsPath uploadVars w2 manifestPath e w3 where
      "ConfigureDirectorManifestCPI config = (manifest0, None)"
      "yaml_Interpolate i manifest0 [] vars = (manifest, None)"
      "writeToDisk st stateFilename w = (Inr (statePath, uploadState), w1)"
      "writeToDisk st varsFilename w1 = (Inr (varsPath, uploadVars), w2)"
      "writeTempFile manifest w2 = ((manifestPath, Some e), w3)"
      "r = (Some e, discard uploadState (discard uploadVars w3))"
  | (process) manifest0 manifest statePath uploadState w1 varsPath uploadVars w2 manifestPath w3 where
      "ConfigureDirectorManifestCPI config = (manifest0, None)"
      "yaml_Interpolate i manifest0 [] vars = (manifest, None)"
      "writeToDisk st stateFilename w = (Inr (statePath, uploadState), w1)"
      "writeToDisk st varsFilename w1 = (Inr (varsPath, uploadVars), w2)"
      "writeTempFile manifest w2 = ((manifestPath, None), w3)"
proof -
  obtain manifest0 e0 where cfg: "ConfigureDirectorManifestCPI config = (manifest0, e0)"
    by (cases "ConfigureDirectorManifestCPI config")
  show thesis
  proof (cases e0)
    case (Some e)
    with cfg show thesis by (intro config [of manifest0 e]) (simp_all add: r_def xEnv_def)
  next
    case None
    note cfg = cfg [unfolded None]
    obtain manifest e1 where itp: "yaml_Interpolate i manifest0 [] vars = (manifest, e1)"
      by (cases "yaml_Interpolate i manifest0 [] vars")
    show thesis
    proof (cases e1)
      case (Some e)
      with cfg itp show thesis
        by (intro interpolate [of manifest0 manifest e])
           (simp_all add: r_def xEnv_def vars_def [symmetric] Let_def)
    next
      case None
      note itp = itp [unfolded None]
      obtain r1 w1 where st: "writeToDisk st stateFilename w = (r1, w1)"
        by (cases "writeToDisk st stateFilename w")
      show thesis
      proof (cases r1)
        case (Inl e)
        with cfg itp st show thesis
          by (intro state [of manifest0 manifest e w1])
             (simp_all add: r_def xEnv_def vars_def [symmetric] Let_def)
      next
        case (Inr pu)
        obtain statePath uploadState where pu: "pu = (statePath, uploadState)" by (cases pu)
        note st = st [unfolded Inr pu]
        obtain r2 w2 where vr: "writeToDisk st varsFilename w1 = (r2, w2)"
          by (cases "writeToDisk st varsFilename w1")
        show thesis
        proof (cases r2)
          case (Inl e)
          with cfg itp st vr show thesis
            by (intro vars [of manifest0 manifest statePath uploadState w1 e w2])
               (simp_all add: r_def xEnv_def vars_def [symmetric] Let_def deferred_def)
        next
          case (Inr pv)
          obtain varsPath uploadVars where pv: "pv = (varsPath, uploadVars)" by (cases pv)
          note vr = vr [unfolded Inr pv]
          obtain manifestPath e3 w3 where mf: "writeTempFile manifest w2 = ((manifestPath, e3), w3)"
            by (cases "writeTempFile manifest w2") auto
          show thesis
          proof (cases e3)
            case (Some e)
            with cfg itp st vr mf show thesis
              by (intro manifest [of manifest0 manifest statePath uploadState w1 varsPath
                    uploadVars w2 manifestPath e w3])
                 (simp_all add: r_def xEnv_def vars_def [symmetric] Let_def deferred_def)
          next
            case None
            with cfg itp st vr mf show thesis
              by (intro process [of manifest0 manifest statePath uploadState w1 varsPath
                    uploadVars w2 manifestPath w3]) simp_all
          qed
        qed
      qed
    qed
  qed
qed

lemma wTD_path_shape:
  assumes "writeToDisk st key w = (Inr (name, up), w1)"
  shows "name = tmp_name (counter w) \<or> name = tmp_name (counter w) @ CHR ''/'' # key"
  using wTD_success(5,6) [OF assms]
  by (cases "fst (store_Get st (store w) key) = []") (auto simp: Join_def)

lemma wTD_success_files:
  assumes "writeToDisk st key w = (Inr (name, up), w1)"
  shows "p \<noteq> name \<Longrightarrow> files w1 p = files w p"
  using wTD_success(5,6) [OF assms]
  by (cases "fst (store_Get st (store w) key) = []") auto

lemma state_vars_distinct:
  assumes st: "writeToDisk st k1 w = (Inr (p1, u1), w1)"
    and vr: "writeToDisk st k2 w1 = (Inr (p2, u2), w2)"
  shows "p1 \<noteq> p2" and "p1 \<noteq> tmp_name (counter w1)" and "p1 \<noteq> tmp_name (counter w2)"
    and "p2 \<noteq> tmp_name (counter w2)"
  using wTD_path_shape [OF st] wTD_path_shape [OF vr] wTD_success(3) [OF st] wTD_success(3) [OF vr]
  by auto

lemma filenames_distinct [simp]: "stateFilename \<noteq> varsFilename" "varsFilename \<noteq> stateFilename"
  by (simp_all add: stateFilename_def varsFilename_def)

text \<open>The events and the files on each way through xEnv after the state hydration.\<close>

lemma xEnv_vars_path:
  assumes st: "writeToDisk st stateFilename w = (Inr (statePath, uploadState), w1)"
    and vr: "writeToDisk st varsFilename w1 = (Inl e, w2)"
  defines "w' \<equiv> discard uploadState w2"
  shows "\<exists>es. trace w' = trace w @ es \<and>
           (\<forall>p. Created p \<in> set es \<longrightarrow> files w' p = None) \<and>
           (\<forall>m b a. Exec m b a \<notin> set es) \<and>
           (\<forall>d. StoreSet stateFilename d \<in> set es \<longleftrightarrow> files w1 statePath = Some d)"
proof -
  have us: "uploadState = upload st stateFilename statePath" by (rule wTD_success(1) [OF st])
  obtain A where A: "trace w1 = trace w @ A" "\<forall>p. Created p \<in> set A \<longrightarrow> p = statePath" "quiet A"
    using wTD_success_trace [OF st] by blast
  obtain B where B: "trace w2 = trace w1 @ B" "\<forall>p. Created p \<in> set B \<longrightarrow> files w2 p = None" "quiet B"
    using wTD_failure [OF vr] by blast
  obtain U where U: "trace w' = trace w2 @ U" "\<forall>p. Created p \<notin> set U"
      "\<forall>m b a. Exec m b a \<notin> set U"
      "\<forall>k d. StoreSet k d \<in> set U \<longleftrightarrow> k = stateFilename \<and> files w2 statePath = Some d"
    unfolding w'_def us using upload_trace [of st stateFilename statePath w2] by blast
  have f: "files w' = (files w2)(statePath := None)"
    unfolding w'_def us by (rule upload_files)
  have "statePath \<noteq> tmp_name (counter w1)"
    using wTD_path_shape [OF st] wTD_success(3) [OF st] by auto
  then have s: "files w2 statePath = files w1 statePath"
    by (rule wTD_failure_files [OF vr])
  show ?thesis
    using A B U f s by (intro exI [of _ "A @ B @ U"]) (auto simp: quiet_def)
qed

lemma xEnv_manifest_path:
  assumes st: "writeToDisk st stateFilename w = (Inr (statePath, uploadState), w1)"
    and vr: "writeToDisk st varsFilename w1 = (Inr (varsPath, uploadVars), w2)"
    and mf: "writeTempFile manifest w2 = ((manifestPath, Some e), w3)"
  defines "w' \<equiv> discard uploadState (discard uploadVars w3)"
  shows "\<exists>es. trace w' = trace w @ es \<and>
           (\<forall>p. Created p \<in> set es \<longrightarrow> files w' p = None) \<and>
           (\<forall>m b a. Exec m b a \<notin> set es) \<and>
           (\<forall>d. StoreSet stateFilename d \<in> set es \<longleftrightarrow> files w1 statePath = Some d) \<and>
           (\<forall>d. StoreSet varsFilename d \<in> set es \<longleftrightarrow> files w2 varsPath = Some d)"
proof -
  have us: "uploadState = upload st stateFilename statePath" by (rule wTD_success(1) [OF st])
  have uv: "uploadVars = upload st varsFilename varsPath" by (rule wTD_success(1) [OF vr])
  note d = state_vars_distinct [OF st vr]
  obtain A where A: "trace w1 = trace w @ A" "\<forall>p. Created p \<in> set A \<longrightarrow> p = statePath" "quiet A"
    using wTD_success_trace [OF st] by blast
  obtain B where B: "trace w2 = trace w1 @ B" "\<forall>p. Created p \<in> set B \<longrightarrow> p = varsPath" "quiet B"
    using wTD_success_trace [OF vr] by blast
  obtain C where C: "trace w3 = trace w2 @ C" "\<forall>p. Created p \<in> set C \<longrightarrow> files w3 p = None" "quiet C"
    using wTF_failure [OF mf] by blast
  let ?wv = "discard (upload st varsFilename varsPath) w3"
  obtain V where V: "trace ?wv = trace w3 @ V" "\<forall>p. Created p \<notin> set V"
      "\<forall>m b a. Exec m b a \<notin> set V"
      "\<forall>k d. StoreSet k d \<in> set V \<longleftrightarrow> k = varsFilename \<and> files w3 varsPath = Some d"
    using upload_trace [of st varsFilename varsPath w3] by blast
  have fv: "files ?wv = (files w3)(varsPath := None)" by (rule upload_files)
  obtain U where U: "trace w' = trace ?wv @ U" "\<forall>p. Created p \<notin> set U"
      "\<forall>m b a. Exec m b a \<notin> set U"
      "\<forall>k d. StoreSet k d \<in> set U \<longleftrightarrow> k = stateFilename \<and> files ?wv statePath = Some d"
    unfolding w'_def us uv using upload_trace [of st stateFilename statePath ?wv] by blast
  have f: "files w' = (files w3)(varsPath := None, statePath := None)"
    unfolding w'_def us uv by (simp add: upload_files)
  have s3: "files w3 statePath = files w2 statePath" "files w3 varsPath = files w2 varsPath"
    using d by (simp_all add: wTF_failure_files [OF mf])
  have s2: "files w2 statePath = files w1 statePath"
    using d by (simp add: wTD_success_files [OF vr])
  show ?thesis
    using A B C V U f fv s3 s2 d(1)
    by (intro exI [of _ "A @ B @ C @ V @ U"]) (auto simp: quiet_def)
qed

lemma xEnv_process_path:
  fixes c :: CLI and action :: string
  assumes st: "writeToDisk st stateFilename w = (Inr (statePath, uploadState), w1)"
    and vr: "writeToDisk st varsFilename w1 = (Inr (varsPath, uploadVars), w2)"
    and mf: "writeTempFile manifest w2 = ((manifestPath, None), w3)"
  defines "argv \<equiv> [action, ''--state='' @ statePath, ''--vars-store='' @ varsPath, manifestPath]"
  defines "disk \<equiv> effect (execCmd c (boshPath c) argv) (files w3)"
  defines "w' \<equiv> discard uploadState (discard uploadVars (os_Remove manifestPath
              (w3\<lparr>trace := trace w3 @ [Exec Blocking (boshPath c) argv], files := disk\<rparr>)))"
  shows "\<exists>es. trace w' = trace w @ es \<and>
           (\<forall>p. Created p \<in> set es \<longrightarrow> files w' p = None) \<and>
           (\<forall>m b a. Exec m b a \<in> set es \<longleftrightarrow> m = Blocking \<and> b = boshPath c \<and> a = argv) \<and>
           (\<forall>d. StoreSet stateFilename d \<in> set es \<longleftrightarrow> disk statePath = Some d) \<and>
           (\<forall>d. StoreSet varsFilename d \<in> set es \<longleftrightarrow> disk varsPath = Some d)"
proof -
  have us: "uploadState = upload st stateFilename statePath" by (rule wTD_success(1) [OF st])
  have uv: "uploadVars = upload st varsFilename varsPath" by (rule wTD_success(1) [OF vr])
  note d = scratch_paths_distinct [OF st vr mf]
  obtain A where A: "trace w1 = trace w @ A" "\<forall>p. Created p \<in> set A \<longrightarrow> p = statePath" "quiet A"
    using wTD_success_trace [OF st] by blast
  obtain B where B: "trace w2 = trace w1 @ B" "\<forall>p. Created p \<in> set B \<longrightarrow> p = varsPath" "quiet B"
    using wTD_success_trace [OF vr] by blast
  have C: "trace w3 = trace w2 @ [Created manifestPath]" by (rule wTF_success(3) [OF mf])
  let ?E = "[Exec Blocking (boshPath c) argv, Removed manifestPath]
            @ (case disk varsPath of None \<Rightarrow> [] | Some d \<Rightarrow> [StoreSet varsFilename d])
            @ [Removed varsPath]
            @ (case disk statePath of None \<Rightarrow> [] | Some d \<Rightarrow> [StoreSet stateFilename d])
            @ [Removed statePath]"
  have t: "trace w' = trace w3 @ ?E"
    using d by (simp add: w'_def us uv discard_def upload_world os_Remove_def)
  have f: "files w' = disk (manifestPath := None, varsPath := None, statePath := None)"
    by (simp add: w'_def us uv discard_def upload_world os_Remove_def)
  show ?thesis
    using A B C t f
    by (intro exI [of _ "A @ B @ [Created manifestPath] @ ?E"])
       (auto simp: quiet_def split: option.splits)
qed

lemma xEnv_scratch_removed:
  "scratch_removed w (snd (xEnv i c action st config password cert key ca tags w))"
proof (cases rule: xEnv_paths [where i=i and c=c and action=action and st=st and config=config and password=password and cert=cert and key=key and ca=ca and tags=tags and w=w])
  case (config manifest0 e)
  then show ?thesis by (simp add: scratch_removed_def events_def)
next
  case (interpolate manifest0 manifest e)
  then show ?thesis by (simp add: scratch_removed_def events_def)
next
  case (state manifest0 manifest e w1)
  with wTD_failure [OF state(3)] show ?thesis
    by (auto intro: scratch_removedI)
next
  case (vars manifest0 manifest statePath uploadState w1 e w2)
  with xEnv_vars_path [OF vars(3,4)] show ?thesis
    by (auto intro: scratch_removedI)
next
  case (manifest manifest0 manifest statePath uploadState w1 varsPath uploadVars w2 manifestPath e w3)
  with xEnv_manifest_path [OF manifest(3,4,5)] show ?thesis
    by (auto intro: scratch_removedI)
next
  case (process manifest0 manifest statePath uploadState w1 varsPath uploadVars w2 manifestPath w3)
  with xEnv_process_path [OF process(3,4,5), where c=c and action=action] xEnv_reaches_process [OF process, where c=c and action=action]
  show ?thesis
    by (auto intro: scratch_removedI)
qed

text \<open>
  Claim C10. The error that \<^verbatim>\<open>xEnv\<close> (\<^verbatim>\<open>CreateEnv\<close>, \<^verbatim>\<open>DeleteEnv\<close>) returns never reflects
  the upload of the state artifacts: it is the same for every store that answers
  \<^verbatim>\<open>Get\<close> alike, whatever its \<^verbatim>\<open>Set\<close> returns, and once the external command has been
  built it is the result of running that command, whether or not the scratch files
  could be read and uploaded afterwards.
\<close>

theorem xEnv_error_ignores_upload:
  "(\<forall>st'. store_Get st' = store_Get st \<longrightarrow>
      fst (xEnv i c action st' config password cert key ca tags w) =
      fst (xEnv i c action st config password cert key ca tags w)) \<and>
   (\<forall>m b a. Exec m b a \<in> set (events w (snd (xEnv i c action st config password cert key ca tags w)))
      \<longrightarrow> fst (xEnv i c action st config password cert key ca tags w) = run_error (execCmd c b a))"
proof (intro conjI allI impI)
  fix st' :: "'a Store"
  assume "store_Get st' = store_Get st"
  then show "fst (xEnv i c action st' config password cert key ca tags w) =
      fst (xEnv i c action st config password cert key ca tags w)"
    by (rule xEnv_error_Get_only)
next
  fix m b a
  assume ex: "Exec m b a \<in> set (events w (snd (xEnv i c action st config password cert key ca tags w)))"
  show "fst (xEnv i c action st config password cert key ca tags w) = run_error (execCmd c b a)"
  proof (cases rule: xEnv_paths [where i=i and c=c and action=action and st=st and config=config and password=password and cert=cert and key=key and ca=ca and tags=tags and w=w])
    case (config manifest0 e)
    with ex show ?thesis by (simp add: events_def)
  next
    case (interpolate manifest0 manifest e)
    with ex show ?thesis by (simp add: events_def)
  next
    case (state manifest0 manifest e w1)
    with wTD_failure [OF state(3)] ex show ?thesis
      by (auto simp: quiet_def dest!: events_append)
  next
    case (vars manifest0 manifest statePath uploadState w1 e w2)
    with xEnv_vars_path [OF vars(3,4)] ex show ?thesis
      by (auto dest!: events_append)
  next
    case (manifest manifest0 manifest statePath uploadState w1 varsPath uploadVars w2 manifestPath e w3)
    with xEnv_manifest_path [OF manifest(3,4,5)] ex show ?thesis
      by (auto dest!: events_append)
  next
    case (process manifest0 manifest statePath uploadState w1 varsPath uploadVars w2 manifestPath w3)
    let ?r = "xEnv i c action st config password cert key ca tags w"
    let ?argv = "[action, ''--state='' @ statePath, ''--vars-store='' @ varsPath, manifestPath]"
    note r = xEnv_reaches_process [OF process, where c=c and action=action]
    from xEnv_process_path [OF process(3,4,5), where c=c and action=action] obtain es where
      es: "trace (snd ?r) = trace w @ es"
      "\<forall>m b a. Exec m b a \<in> set es \<longleftrightarrow> m = Blocking \<and> b = boshPath c \<and> a = ?argv"
      unfolding r snd_conv by blast
    from ex have "Exec m b a \<in> set es"
      unfolding events_append [OF es(1)] .
    with es(2) have "b = boshPath c" "a = ?argv" by blast+
    moreover have "fst ?r = run_error (execCmd c (boshPath c) ?argv)"
      unfolding r fst_conv ..
    ultimately show ?thesis by (simp only:)
  qed
qed

lemma tmp_names:
  "tmp_name 0 = ''/tmp/0''" "tmp_name (Suc 0) = ''/tmp/1''" "tmp_name (Suc (Suc 0)) = ''/tmp/2''"
  by (simp_all add: tmp_name_def digits.simps digit_def)

lemmas run_defs =
  CreateEnv_def xEnv_def writeToDisk_def Get_call_def Set_call_def TempDir_def TempFile_def
  file_Write_def file_Close_def next_fault_def writeTempFile_def upload_def ReadFile_def
  os_Remove_def deferred_def discard_def command_def cmd_Run_def Join_def stateFilename_def
  varsFilename_def tmp_names Let_def

lemmas input_defs =
  map_store_def read_only_store_def fresh_world_def resumed_world_def quiet_process_def
  failing_cli_def passing_cli_def plain_config_def plain_packages_def

lemma CreateEnv_first_run_fails:
  defines "r \<equiv> CreateEnv plain_packages failing_cli map_store plain_config
                  ''pw'' ''cert'' ''key'' ''ca'' Map.empty fresh_world"
  shows "fst r = Some (Error ''exit status 1'')"
    and "trace (snd r) =
          [StoreGet ''state.json'', CreatedDir ''/tmp/0'', StoreGet ''vars.yaml'',
           CreatedDir ''/tmp/1'', Created ''/tmp/2'',
           Exec Blocking ''bosh''
             [''create-env'', ''--state=/tmp/0/state.json'', ''--vars-store=/tmp/1/vars.yaml'',
              ''/tmp/2''],
           Removed ''/tmp/2'', Removed ''/tmp/1/vars.yaml'', Removed ''/tmp/0/state.json'']"
    and "dirs (snd r) = {''/tmp/1'', ''/tmp/0''}"
    and "files (snd r) = Map.empty"
  unfolding r_def by (simp_all add: run_defs input_defs)


lemma CreateEnv_resumed_run_fails:
  defines "r \<equiv> CreateEnv plain_packages failing_cli map_store plain_config
                  ''pw'' ''cert'' ''key'' ''ca'' Map.empty resumed_world"
  shows "fst r = Some (Error ''exit status 1'')"
    and "trace (snd r) =
          [StoreGet ''state.json'', Created ''/tmp/0'', StoreGet ''vars.yaml'',
           CreatedDir ''/tmp/1'', Created ''/tmp/2'',
           Exec Blocking ''bosh''
             [''create-env'', ''--state=/tmp/0'', ''--vars-store=/tmp/1/vars.yaml'', ''/tmp/2''],
           Removed ''/tmp/2'', Removed ''/tmp/1/vars.yaml'',
           StoreSet ''state.json'' ''{}'', Removed ''/tmp/0'']"
    and "files (snd r) = Map.empty"
  unfolding r_def by (simp_all add: run_defs input_defs)

text \<open>
  Claim C1, as stated, fails: on a first run both keys are absent, both \<^verbatim>\<open>Get\<close> calls
  return without error, the external process fails before it writes a state, and
  \<^verbatim>\<open>CreateEnv\<close> returns without a single \<^verbatim>\<open>Set\<close>.
\<close>

theorem CreateEnv_absent_state_not_uploaded:
  "snd (store_Get map_store (store fresh_world) ''state.json'') = None \<and>
   snd (store_Get map_store (store fresh_world) ''vars.yaml'') = None \<and>
   fst (CreateEnv plain_packages failing_cli map_store plain_config
          ''pw'' ''cert'' ''key'' ''ca'' Map.empty fresh_world) = Some (Error ''exit status 1'') \<and>
   StoreGet ''state.json'' \<in> set (trace (snd (CreateEnv plain_packages failing_cli map_store
          plain_config ''pw'' ''cert'' ''key'' ''ca'' Map.empty fresh_world))) \<and>
   StoreGet ''vars.yaml'' \<in> set (trace (snd (CreateEnv plain_packages failing_cli map_store
          plain_config ''pw'' ''cert'' ''key'' ''ca'' Map.empty fresh_world))) \<and>
   (\<forall>k d. StoreSet k d \<notin> set (trace (snd (CreateEnv plain_packages failing_cli map_store
          plain_config ''pw'' ''cert'' ''key'' ''ca'' Map.empty fresh_world))))"
  by (simp add: CreateEnv_first_run_fails) (simp add: input_defs)

text \<open>
  Claim C1, amended. Once the hydration of the state artifact has succeeded
  (\<^verbatim>\<open>writeToDisk\<close> returned a scratch path), its deferred upload runs before \<^verbatim>\<open>xEnv\<close>
  returns and calls \<^verbatim>\<open>Set\<close> for the artifact exactly when a file is at its scratch path
  at that moment, with the content of that file; likewise for the variables artifact.
  When a later preparation step fails, that is the file as the hydration left it; when
  the external process has run, it is the file as the process left it, and the error
  returned is the one of the process, so the upload happens also when the process fails.
\<close>

theorem xEnv_uploads_scratch_files:
  fixes i :: packages and c :: CLI and st :: "'s Store" and w w1 :: "'s world"
    and action password cert key ca :: string and config :: IAASEnvironment
    and tags :: "string \<rightharpoonup> string"
  assumes cfg: "ConfigureDirectorManifestCPI config = (manifest0, None)"
    and itp: "yaml_Interpolate i manifest0 []
                (xEnv_vars password cert key ca (resource_Get i BOSHRelease)
                   (resource_Get i BPMRelease) tags) = (manifest, None)"
    and st: "writeToDisk st stateFilename w = (Inr (statePath, uploadState), w1)"
  defines "r \<equiv> xEnv i c action st config password cert key ca tags w"
  shows
    "(\<forall>e w2. writeToDisk st varsFilename w1 = (Inl e, w2) \<longrightarrow>
        (\<forall>d. StoreSet stateFilename d \<in> set (events w (snd r)) \<longleftrightarrow> files w1 statePath = Some d)) \<and>
     (\<forall>varsPath uploadVars w2 manifestPath e w3.
        writeToDisk st varsFilename w1 = (Inr (varsPath, uploadVars), w2) \<and>
        writeTempFile manifest w2 = ((manifestPath, Some e), w3) \<longrightarrow>
        (\<forall>d. StoreSet stateFilename d \<in> set (events w (snd r)) \<longleftrightarrow> files w1 statePath = Some d) \<and>
        (\<forall>d. StoreSet varsFilename d \<in> set (events w (snd r)) \<longleftrightarrow> files w2 varsPath = Some d)) \<and>
     (\<forall>varsPath uploadVars w2 manifestPath w3 cmd disk.
        writeToDisk st varsFilename w1 = (Inr (varsPath, uploadVars), w2) \<and>
        writeTempFile manifest w2 = ((manifestPath, None), w3) \<and>
        cmd = execCmd c (boshPath c)
                [action, ''--state='' @ statePath, ''--vars-store='' @ varsPath, manifestPath] \<and>
        disk = effect cmd (files w3) \<longrightarrow>
        fst r = run_error cmd \<and>
        (\<forall>d. StoreSet stateFilename d \<in> set (events w (snd r)) \<longleftrightarrow> disk statePath = Some d) \<and>
        (\<forall>d. StoreSet varsFilename d \<in> set (events w (snd r)) \<longleftrightarrow> disk varsPath = Some d))"
proof (intro conjI allI impI; (elim conjE)?)
  fix e w2
  assume vr: "writeToDisk st varsFilename w1 = (Inl e, w2)"
  have r: "r = (Some e, discard uploadState w2)"
    by (simp add: r_def xEnv_def cfg itp st vr deferred_def Let_def)
  from xEnv_vars_path [OF st vr] obtain es where
    "trace (snd r) = trace w @ es"
    "\<forall>d. StoreSet stateFilename d \<in> set es \<longleftrightarrow> files w1 statePath = Some d"
    unfolding r snd_conv by blast
  then show "\<And>d. StoreSet stateFilename d \<in> set (events w (snd r)) \<longleftrightarrow> files w1 statePath = Some d"
    by (simp add: events_append)
next
  fix varsPath uploadVars w2 manifestPath e w3
  assume vr: "writeToDisk st varsFilename w1 = (Inr (varsPath, uploadVars), w2)"
    and mf: "writeTempFile manifest w2 = ((manifestPath, Some e), w3)"
  have r: "r = (Some e, discard uploadState (discard uploadVars w3))"
    by (simp add: r_def xEnv_def cfg itp st vr mf deferred_def Let_def)
  from xEnv_manifest_path [OF st vr mf] obtain es where
    es: "trace (snd r) = trace w @ es"
    "\<forall>d. StoreSet stateFilename d \<in> set es \<longleftrightarrow> files w1 statePath = Some d"
    "\<forall>d. StoreSet varsFilename d \<in> set es \<longleftrightarrow> files w2 varsPath = Some d"
    unfolding r snd_conv by blast
  from es(1,2) show "\<And>d. StoreSet stateFilename d \<in> set (events w (snd r)) \<longleftrightarrow> files w1 statePath = Some d"
    by (simp add: events_append)
  from es(1,3) show "\<And>d. StoreSet varsFilename d \<in> set (events w (snd r)) \<longleftrightarrow> files w2 varsPath = Some d"
    by (simp add: events_append)
next
  fix varsPath uploadVars w2 manifestPath w3 cmd disk
  assume vr: "writeToDisk st varsFilename w1 = (Inr (varsPath, uploadVars), w2)"
    and mf: "writeTempFile manifest w2 = ((manifestPath, None), w3)"
    and cmd: "cmd = execCmd c (boshPath c)
                [action, ''--state='' @ statePath, ''--vars-store='' @ varsPath, manifestPath]"
    and disk: "disk = effect cmd (files w3)"
  note r = xEnv_reaches_process [OF cfg itp st vr mf, where c=c and action=action]
  show "fst r = run_error cmd"
    unfolding r_def r fst_conv cmd ..
  from xEnv_process_path [OF st vr mf, where c=c and action=action] obtain es where
    es: "trace (snd r) = trace w @ es"
    "\<forall>d. StoreSet stateFilename d \<in> set es \<longleftrightarrow> disk statePath = Some d"
    "\<forall>d. StoreSet varsFilename d \<in> set es \<longleftrightarrow> disk varsPath = Some d"
    unfolding r_def r snd_conv disk cmd by blast
  from es(1,2) show "\<And>d. StoreSet stateFilename d \<in> set (events w (snd r)) \<longleftrightarrow> disk statePath = Some d"
    by (simp add: events_append)
  from es(1,3) show "\<And>d. StoreSet varsFilename d \<in> set (events w (snd r)) \<longleftrightarrow> disk varsPath = Some d"
    by (simp add: events_append)
qed

lemma resumed_hydration:
  defines "w1 \<equiv> snd (writeToDisk map_store stateFilename resumed_world)"
  defines "w2 \<equiv> snd (writeToDisk map_store varsFilename w1)"
  defines "w3 \<equiv> snd (writeTempFile ''manifest'' w2)"
  shows "writeToDisk map_store stateFilename resumed_world =
           (Inr (''/tmp/0'', upload map_store stateFilename ''/tmp/0''), w1)"
    and "writeToDisk map_store varsFilename w1 =
           (Inr (''/tmp/1/vars.yaml'', upload map_store varsFilename ''/tmp/1/vars.yaml''), w2)"
    and "writeTempFile ''manifest'' w2 = ((''/tmp/2'', None), w3)"
    and "files w3 ''/tmp/0'' = Some ''{}''"
    and "files w3 ''/tmp/1/vars.yaml'' = None"
  unfolding w3_def w2_def w1_def
  by (simp_all add: run_defs input_defs prod_eq_iff)

theorem xEnv_uploads_scratch_files_witness:
  "fst (xEnv plain_packages failing_cli ''create-env'' map_store plain_config
          ''pw'' ''cert'' ''key'' ''ca'' Map.empty resumed_world) = Some (Error ''exit status 1'') \<and>
   StoreSet stateFilename ''{}'' \<in> set (events resumed_world
     (snd (xEnv plain_packages failing_cli ''create-env'' map_store plain_config
          ''pw'' ''cert'' ''key'' ''ca'' Map.empty resumed_world))) \<and>
   (\<forall>d. StoreSet varsFilename d \<notin> set (events resumed_world
     (snd (xEnv plain_packages failing_cli ''create-env'' map_store plain_config
          ''pw'' ''cert'' ''key'' ''ca'' Map.empty resumed_world))))"
proof -
  let ?r = "xEnv plain_packages failing_cli ''create-env'' map_store plain_config
          ''pw'' ''cert'' ''key'' ''ca'' Map.empty resumed_world"
  let ?w1 = "snd (writeToDisk map_store stateFilename resumed_world)"
  let ?w2 = "snd (writeToDisk map_store varsFilename ?w1)"
  let ?w3 = "snd (writeTempFile ''manifest'' ?w2)"
  let ?cmd = "execCmd failing_cli (boshPath failing_cli)
                [''create-env'', ''--state='' @ ''/tmp/0'', ''--vars-store='' @ ''/tmp/1/vars.yaml'',
                 ''/tmp/2'']"
  have cfg: "ConfigureDirectorManifestCPI plain_config = (''manifest'', None)"
    by (simp add: plain_config_def)
  have itp: "yaml_Interpolate plain_packages ''manifest'' []
                (xEnv_vars ''pw'' ''cert'' ''key'' ''ca'' (resource_Get plain_packages BOSHRelease)
                   (resource_Get plain_packages BPMRelease) Map.empty) = (''manifest'', None)"
    by (simp add: plain_packages_def)
  note h = resumed_hydration
  have "fst ?r = run_error ?cmd \<and>
        (\<forall>d. StoreSet stateFilename d \<in> set (events resumed_world (snd ?r))
            \<longleftrightarrow> effect ?cmd (files ?w3) ''/tmp/0'' = Some d) \<and>
        (\<forall>d. StoreSet varsFilename d \<in> set (events resumed_world (snd ?r))
            \<longleftrightarrow> effect ?cmd (files ?w3) ''/tmp/1/vars.yaml'' = Some d)"
    using xEnv_uploads_scratch_files [OF cfg itp h(1), where c = failing_cli
        and action = "''create-env''"] h(2) h(3)
    by blast
  moreover have "run_error ?cmd = Some (Error ''exit status 1'')"
    by (simp add: failing_cli_def quiet_process_def)
  moreover have "effect ?cmd (files ?w3) = files ?w3"
    by (simp add: failing_cli_def quiet_process_def)
  ultimately show ?thesis
    by (simp add: h(4) h(5))
qed

lemma CreateEnv_resumed_run_passes:
  defines "r \<equiv> xEnv plain_packages passing_cli ''create-env'' read_only_store plain_config
                  ''pw'' ''cert'' ''key'' ''ca'' Map.empty resumed_world"
  shows "trace (snd r) =
          [StoreGet ''state.json'', Created ''/tmp/0'', StoreGet ''vars.yaml'',
           CreatedDir ''/tmp/1'', Created ''/tmp/2'',
           Exec Blocking ''bosh''
             [''create-env'', ''--state=/tmp/0'', ''--vars-store=/tmp/1/vars.yaml'', ''/tmp/2''],
           Removed ''/tmp/2'', Removed ''/tmp/1/vars.yaml'',
           StoreSet ''state.json'' ''{}'', Removed ''/tmp/0'']"
  unfolding r_def by (simp add: run_defs input_defs events_def)

theorem xEnv_error_ignores_upload_witness:
  "store_Get read_only_store = store_Get map_store \<and>
   fst (store_Set read_only_store (store resumed_world) ''state.json'' ''{}'') =
     Some (Error ''put failed'') \<and>
   StoreSet ''state.json'' ''{}'' \<in> set (events resumed_world
     (snd (xEnv plain_packages passing_cli ''create-env'' read_only_store plain_config
          ''pw'' ''cert'' ''key'' ''ca'' Map.empty resumed_world))) \<and>
   fst (xEnv plain_packages passing_cli ''create-env'' read_only_store plain_config
          ''pw'' ''cert'' ''key'' ''ca'' Map.empty resumed_world) = None \<and>
   fst (xEnv plain_packages passing_cli ''create-env'' map_store plain_config
          ''pw'' ''cert'' ''key'' ''ca'' Map.empty resumed_world) = None"
proof -
  let ?r = "xEnv plain_packages passing_cli ''create-env'' read_only_store plain_config
          ''pw'' ''cert'' ''key'' ''ca'' Map.empty resumed_world"
  let ?argv = "[''create-env'', ''--state=/tmp/0'', ''--vars-store=/tmp/1/vars.yaml'', ''/tmp/2'']"
  note T = xEnv_error_ignores_upload [of read_only_store plain_packages passing_cli
      "''create-env''" plain_config "''pw''" "''cert''" "''key''" "''ca''" Map.empty resumed_world]
  have g: "store_Get read_only_store = store_Get map_store"
    by (simp add: read_only_store_def)
  have s: "fst (store_Set read_only_store (store resumed_world) ''state.json'' ''{}'') =
     Some (Error ''put failed'')"
    by (simp add: read_only_store_def)
  have ev: "events resumed_world (snd ?r) = trace (snd ?r)"
    by (simp add: events_def resumed_world_def fresh_world_def)
  have set: "StoreSet ''state.json'' ''{}'' \<in> set (events resumed_world (snd ?r))"
    unfolding ev CreateEnv_resumed_run_passes by simp
  have ex: "Exec Blocking ''bosh'' ?argv \<in> set (events resumed_world (snd ?r))"
    unfolding ev CreateEnv_resumed_run_passes by simp
  from T ex have "fst ?r = run_error (execCmd passing_cli ''bosh'' ?argv)" by blast
  then have none: "fst ?r = None" by (simp add: passing_cli_def quiet_process_def)
  from T g [symmetric] have "fst (xEnv plain_packages passing_cli ''create-env'' map_store plain_config
          ''pw'' ''cert'' ''key'' ''ca'' Map.empty resumed_world) = fst ?r"
    by blast
  with g s set none show ?thesis by simp
qed

text \<open>
  Claim C5, as stated, fails: when the key is absent, \<^verbatim>\<open>writeToDisk\<close> creates a
  temporary directory and returns the path of the key inside it, and no file exists at
  that path.
\<close>

theorem writeToDisk_absent_key_creates_no_file:
  "store_Get map_store (store fresh_world) stateFilename = ([], None) \<and>
   (\<exists>up w1. writeToDisk map_store stateFilename fresh_world =
               (Inr (''/tmp/0/state.json'', up), w1) \<and>
            files w1 ''/tmp/0/state.json'' = None \<and> files w1 = Map.empty \<and>
            dirs w1 = {''/tmp/0''})"
  by (simp add: run_defs input_defs)

text \<open>
  Claim C5, amended. When \<^verbatim>\<open>Get\<close> returns an empty result, the hydration creates a
  temporary directory and returns the path of the key inside that directory without
  creating a file: the files on disk are as before. When \<^verbatim>\<open>Get\<close> returns bytes, the
  hydration writes them to a temporary file and returns its path.
\<close>

theorem writeToDisk_download_or_directory:
  assumes "writeToDisk st key w = (Inr (name, up), w1)"
  shows "(fst (store_Get st (store w) key) = [] \<longrightarrow>
            name = Join (tmp_name (counter w)) key \<and> files w1 = files w \<and>
            dirs w1 = insert (tmp_name (counter w)) (dirs w)) \<and>
         (fst (store_Get st (store w) key) \<noteq> [] \<longrightarrow>
            name = tmp_name (counter w) \<and>
            files w1 = (files w)(name \<mapsto> fst (store_Get st (store w) key)) \<and>
            dirs w1 = dirs w)"
  using wTD_success(5,6) [OF assms] by blast

theorem writeToDisk_download_or_directory_witness:
  "fst (store_Get map_store (store fresh_world) stateFilename) = [] \<and>
   files (snd (writeToDisk map_store stateFilename fresh_world)) = files fresh_world \<and>
   dirs (snd (writeToDisk map_store stateFilename fresh_world)) = {''/tmp/0''} \<and>
   fst (store_Get map_store (store resumed_world) stateFilename) = ''{}'' \<and>
   files (snd (writeToDisk map_store stateFilename resumed_world)) = [''/tmp/0'' \<mapsto> ''{}'']"
proof -
  have absent: "fst (store_Get map_store (store fresh_world) stateFilename) = []"
    by (simp add: input_defs stateFilename_def)
  have present: "fst (store_Get map_store (store resumed_world) stateFilename) = ''{}''"
    by (simp add: input_defs stateFilename_def)
  have a: "writeToDisk map_store stateFilename fresh_world =
      (Inr (''/tmp/0/state.json'', upload map_store stateFilename ''/tmp/0/state.json''),
       snd (writeToDisk map_store stateFilename fresh_world))"
    by (simp add: run_defs input_defs prod_eq_iff)
  note b = resumed_hydration(1)
  from writeToDisk_download_or_directory [OF a] absent
  have "files (snd (writeToDisk map_store stateFilename fresh_world)) = files fresh_world \<and>
        dirs (snd (writeToDisk map_store stateFilename fresh_world)) =
          insert (tmp_name (counter fresh_world)) (dirs fresh_world)"
    by blast
  moreover from writeToDisk_download_or_directory [OF b] present
  have "files (snd (writeToDisk map_store stateFilename resumed_world)) =
          (files resumed_world)(''/tmp/0'' \<mapsto> ''{}'')"
    by simp
  ultimately show ?thesis
    using absent present by (simp add: fresh_world_def resumed_world_def tmp_names)
qed

section \<open>The authenticated operations and the cleanup\<close>

lemma wTF_cases:
  obtains (failed) name e w1 es where "writeTempFile data w = ((name, Some e), w1)"
      "trace w1 = trace w @ es" "\<forall>p. Created p \<in> set es \<longrightarrow> files w1 p = None" "quiet es"
  | (written) name w1 where "writeTempFile data w = ((name, None), w1)"
      "trace w1 = trace w @ [Created name]" "files w1 = (files w)(name \<mapsto> data)"
proof -
  obtain name err w1 where r: "writeTempFile data w = ((name, err), w1)"
    by (cases "writeTempFile data w") auto
  show thesis
  proof (cases err)
    case None
    with r wTF_success(2,3) [of data w name w1] show thesis by (intro written) auto
  next
    case (Some e)
    with r wTF_failure [of data w name e w1] show thesis by (auto intro: failed)
  qed
qed

lemma Recreate_scratch_removed:
  "scratch_removed w (snd (Recreate c config ip password ca w))"
proof (cases rule: wTF_cases [of ca w])
  case (failed name e w1 es)
  then show ?thesis
    by (auto simp: Recreate_def intro: scratch_removedI)
next
  case (written name w1)
  then show ?thesis
    by (auto simp: Recreate_def deferred_def command_def cmd_Run_def os_Remove_def Let_def
          intro!: scratch_removedI)
qed

lemma Locks_scratch_removed:
  "scratch_removed w (snd (Locks c config ip password ca w))"
proof (cases rule: wTF_cases [of ca w])
  case (failed name e w1 es)
  then show ?thesis
    by (auto simp: Locks_def intro: scratch_removedI)
next
  case (written name w1)
  then show ?thesis
    by (auto simp: Locks_def deferred_def command_def cmd_Run_def os_Remove_def Let_def
          split: option.splits intro!: scratch_removedI)
qed

lemma UploadConcourseStemcell_scratch_removed:
  "scratch_removed w (snd (UploadConcourseStemcell c config ip password ca w))"
proof (cases "ConfigureConcourseStemcell config")
  case (Pair stemcell err)
  show ?thesis
  proof (cases err)
    case (Some e)
    with Pair show ?thesis
      by (simp add: UploadConcourseStemcell_def scratch_removed_def events_def)
  next
    case None
    show ?thesis
    proof (cases rule: wTF_cases [of ca w])
      case (failed name e w1 es)
      with Pair None show ?thesis
        by (auto simp: UploadConcourseStemcell_def intro: scratch_removedI)
    next
      case (written name w1)
      with Pair None show ?thesis
        by (auto simp: UploadConcourseStemcell_def deferred_def command_def cmd_Run_def
              os_Remove_def Let_def intro!: scratch_removedI)
    qed
  qed
qed

lemma UpdateCloudConfig_scratch_removed:
  "scratch_removed w (snd (UpdateCloudConfig c config ip password ca w))"
proof (cases "ConfigureDirectorCloudConfig config")
  case (Pair cloudConfig err)
  show ?thesis
  proof (cases err)
    case (Some e)
    with Pair show ?thesis
      by (simp add: UpdateCloudConfig_def scratch_removed_def events_def)
  next
    case None
    show ?thesis
    proof (cases rule: wTF_cases [of cloudConfig w])
      case (failed name e w1 es)
      with Pair None show ?thesis
        by (auto simp: UpdateCloudConfig_def intro: scratch_removedI)
    next
      case first: (written cloudConfigPath w1)
      show ?thesis
      proof (cases rule: wTF_cases [of ca w1])
        case (failed name e w2 es)
        with Pair None first show ?thesis
          by (auto simp: UpdateCloudConfig_def deferred_def os_Remove_def
                intro!: scratch_removedI [where es = "Created cloudConfigPath # es @ [Removed cloudConfigPath]"])
      next
        case (written caPath w2)
        with Pair None first show ?thesis
          by (auto simp: UpdateCloudConfig_def deferred_def command_def cmd_Run_def
                os_Remove_def Let_def intro!: scratch_removedI)
      qed
    qed
  qed
qed

lemma detachedBoshCommand_world:
  "snd (detachedBoshCommand c stdout flags w) =
     w\<lparr>trace := trace w @ [Exec Detached (boshPath c) flags]\<rparr>"
  by (simp add: detachedBoshCommand_def command_def Let_def split: option.splits)

lemma boshCommand_world:
  "snd (boshCommand c stdout flags w) =
     w\<lparr>trace := trace w @ [Exec Blocking (boshPath c) flags],
       files := effect (execCmd c (boshPath c) flags) (files w)\<rparr>"
  by (simp add: boshCommand_def command_def cmd_Run_def Let_def split: prod.splits)

lemma RunAuthenticatedCommand_written:
  fixes ip password action :: string and flags :: "string list"
  assumes "writeTempFile ca w = ((caPath, None), w1)"
  defines "argv \<equiv> [''--non-interactive'', ''--environment'', ''https://'' @ ip, ''--ca-cert'',
                     caPath, ''--client'', ''admin'', ''--client-secret'', password,
                     ''--deployment'', ''concourse'', action] @ flags"
  shows "RunAuthenticatedCommand c action ip password ca detach stdout flags w =
           deferred (os_Remove caPath)
             (if detach \<and> action = ''deploy'' then detachedBoshCommand c stdout argv w1
              else boshCommand c stdout argv w1)"
    and "events w (snd (RunAuthenticatedCommand c action ip password ca detach stdout flags w)) =
           [Created caPath,
            Exec (if detach \<and> action = ''deploy'' then Detached else Blocking) (boshPath c) argv,
            Removed caPath]"
    and "files (snd (RunAuthenticatedCommand c action ip password ca detach stdout flags w)) caPath
           = None"
  using assms(1) wTF_success(3) [OF assms(1)]
  by (simp_all add: RunAuthenticatedCommand_def argv_def deferred_def Let_def
        detachedBoshCommand_world boshCommand_world os_Remove_def events_def)

lemma RunAuthenticatedCommand_failed:
  assumes "writeTempFile ca w = ((caPath, Some e), w1)"
  shows "RunAuthenticatedCommand c action ip password ca detach stdout flags w =
           ((Some e, stdout), w1)"
  using assms by (simp add: RunAuthenticatedCommand_def)

lemma RunAuthenticatedCommand_scratch_removed:
  "scratch_removed w (snd (RunAuthenticatedCommand c action ip password ca detach stdout flags w))"
proof (cases rule: wTF_cases [of ca w])
  case (failed name e w1 es)
  then show ?thesis
    by (auto simp: RunAuthenticatedCommand_failed intro: scratch_removedI)
next
  case (written name w1)
  from RunAuthenticatedCommand_written(2,3) [OF written(1)] show ?thesis
    by (simp add: scratch_removed_def)
qed


lemma xEnv_state_path_removed:
  assumes cfg: "ConfigureDirectorManifestCPI config = (manifest0, None)"
    and itp: "yaml_Interpolate i manifest0 []
                (xEnv_vars password cert key ca (resource_Get i BOSHRelease)
                   (resource_Get i BPMRelease) tags) = (manifest, None)"
    and st: "writeToDisk st stateFilename w = (Inr (statePath, uploadState), w1)"
  shows "files (snd (xEnv i c action st config password cert key ca tags w)) statePath = None"
proof -
  have us: "uploadState = upload st stateFilename statePath" by (rule wTD_success(1) [OF st])
  show ?thesis
    by (simp add: xEnv_def cfg itp st deferred_def Let_def us upload_files)
qed

lemma xEnv_vars_path_removed:
  assumes cfg: "ConfigureDirectorManifestCPI config = (manifest0, None)"
    and itp: "yaml_Interpolate i manifest0 []
                (xEnv_vars password cert key ca (resource_Get i BOSHRelease)
                   (resource_Get i BPMRelease) tags) = (manifest, None)"
    and st: "writeToDisk st stateFilename w = (Inr (statePath, uploadState), w1)"
    and vr: "writeToDisk st varsFilename w1 = (Inr (varsPath, uploadVars), w2)"
  shows "files (snd (xEnv i c action st config password cert key ca tags w)) varsPath = None"
proof -
  have us: "uploadState = upload st stateFilename statePath" by (rule wTD_success(1) [OF st])
  have uv: "uploadVars = upload st varsFilename varsPath" by (rule wTD_success(1) [OF vr])
  show ?thesis
    by (simp add: xEnv_def cfg itp st vr deferred_def Let_def us uv upload_files)
qed

text \<open>
  Claim C6. On every way out of every orchestrator operation, with or without an
  error, each path at which the call has created a temporary file (the rendered
  manifest, a downloaded state artifact, the cloud config, the CA certificate) holds no
  file when the call returns; the scratch paths of the two state artifacts that
  \<^verbatim>\<open>CreateEnv\<close> and \<^verbatim>\<open>DeleteEnv\<close> hand to the external process hold no file either.
\<close>

theorem scratch_files_removed_on_return:
  fixes i :: packages and c :: CLI and st :: "'s Store" and w :: "'s world"
    and password cert key ca ip action :: string and config :: IAASEnvironment
    and tags :: "string \<rightharpoonup> string" and detach :: bool and stdout :: writer
    and flags :: "string list"
  shows
    "scratch_removed w (snd (CreateEnv i c st config password cert key ca tags w)) \<and>
     scratch_removed w (snd (DeleteEnv i c st config password cert key ca tags w)) \<and>
     scratch_removed w (snd (UpdateCloudConfig c config ip password ca w)) \<and>
     scratch_removed w (snd (Locks c config ip password ca w)) \<and>
     scratch_removed w (snd (UploadConcourseStemcell c config ip password ca w)) \<and>
     scratch_removed w (snd (Recreate c config ip password ca w)) \<and>
     scratch_removed w
       (snd (RunAuthenticatedCommand c action ip password ca detach stdout flags w)) \<and>
     (\<forall>manifest0 manifest statePath uploadState w1.
        ConfigureDirectorManifestCPI config = (manifest0, None) \<and>
        yaml_Interpolate i manifest0 []
          (xEnv_vars password cert key ca (resource_Get i BOSHRelease)
             (resource_Get i BPMRelease) tags) = (manifest, None) \<and>
        writeToDisk st stateFilename w = (Inr (statePath, uploadState), w1) \<longrightarrow>
        files (snd (xEnv i c action st config password cert key ca tags w)) statePath = None \<and>
        (\<forall>varsPath uploadVars w2.
           writeToDisk st varsFilename w1 = (Inr (varsPath, uploadVars), w2) \<longrightarrow>
           files (snd (xEnv i c action st config password cert key ca tags w)) varsPath = None))"
  by (intro conjI allI impI; (elim conjE)?)
     (simp_all only: CreateEnv_def DeleteEnv_def xEnv_scratch_removed
        UpdateCloudConfig_scratch_removed Locks_scratch_removed
        UploadConcourseStemcell_scratch_removed Recreate_scratch_removed
        RunAuthenticatedCommand_scratch_removed xEnv_state_path_removed xEnv_vars_path_removed)

theorem scratch_files_removed_on_return_witness:
  "Created ''/tmp/2'' \<in> set (events fresh_world
      (snd (CreateEnv plain_packages failing_cli map_store plain_config
              ''pw'' ''cert'' ''key'' ''ca'' Map.empty fresh_world))) \<and>
   files (snd (CreateEnv plain_packages failing_cli map_store plain_config
              ''pw'' ''cert'' ''key'' ''ca'' Map.empty fresh_world)) ''/tmp/2'' = None"
proof -
  let ?w = "snd (CreateEnv plain_packages failing_cli map_store plain_config
              ''pw'' ''cert'' ''key'' ''ca'' Map.empty fresh_world)"
  have "events fresh_world ?w = trace ?w"
    by (simp add: events_def fresh_world_def)
  then have created: "Created ''/tmp/2'' \<in> set (events fresh_world ?w)"
    by (simp add: CreateEnv_first_run_fails(2))
  have "scratch_removed fresh_world ?w"
    using scratch_files_removed_on_return [of fresh_world plain_packages failing_cli map_store
        plain_config "''pw''" "''cert''" "''key''" "''ca''" Map.empty]
    by blast
  with created show ?thesis
    unfolding scratch_removed_def by blast
qed

text \<open>
  The temporary directory that the hydration of an absent key creates is not removed:
  it is still there when the call has returned.
\<close>

lemma CreateEnv_leaves_directories:
  "dirs (snd (CreateEnv plain_packages failing_cli map_store plain_config
           ''pw'' ''cert'' ''key'' ''ca'' Map.empty fresh_world)) = {''/tmp/1'', ''/tmp/0''}"
  by (rule CreateEnv_first_run_fails(3))

text \<open>
  Claim C8. \<^verbatim>\<open>RunAuthenticatedCommand\<close> builds a detached command only when
  \<^verbatim>\<open>detach\<close> is true and the action is \<^verbatim>\<open>deploy\<close>, and a blocking command only
  otherwise; once the CA certificate is written it builds exactly one command: detached
  when \<^verbatim>\<open>detach\<close> is true and the action is \<^verbatim>\<open>deploy\<close>, blocking in every other case, also
  with \<^verbatim>\<open>detach\<close> true and another action.
\<close>

theorem RunAuthenticatedCommand_detaches_only_deploy:
  fixes c :: CLI and w :: "'s world" and action ip password ca :: string
    and flags :: "string list" and detach :: bool and stdout :: writer
  defines "r \<equiv> RunAuthenticatedCommand c action ip password ca detach stdout flags w"
  shows
    "(\<forall>b a. Exec Detached b a \<in> set (events w (snd r)) \<longrightarrow> detach \<and> action = ''deploy'') \<and>
     (\<forall>b a. Exec Blocking b a \<in> set (events w (snd r)) \<longrightarrow> \<not> (detach \<and> action = ''deploy'')) \<and>
     (\<forall>caPath w1 argv.
        writeTempFile ca w = ((caPath, None), w1) \<and>
        argv = [''--non-interactive'', ''--environment'', ''https://'' @ ip, ''--ca-cert'',
                caPath, ''--client'', ''admin'', ''--client-secret'', password,
                ''--deployment'', ''concourse'', action] @ flags \<longrightarrow>
        r = deferred (os_Remove caPath)
              (if detach \<and> action = ''deploy'' then detachedBoshCommand c stdout argv w1
               else boshCommand c stdout argv w1) \<and>
        events w (snd r) =
          [Created caPath,
           Exec (if detach \<and> action = ''deploy'' then Detached else Blocking) (boshPath c) argv,
           Removed caPath])"
proof -
  have detached: "\<forall>b a. Exec Detached b a \<in> set (events w (snd r)) \<longrightarrow> detach \<and> action = ''deploy''"
  proof (intro allI impI)
    fix b a
    assume ex: "Exec Detached b a \<in> set (events w (snd r))"
    show "detach \<and> action = ''deploy''"
    proof (cases rule: wTF_cases [of ca w])
      case (failed name e w1 es)
      with ex show ?thesis
        by (simp add: r_def RunAuthenticatedCommand_failed events_append quiet_def)
    next
      case (written name w1)
      with ex RunAuthenticatedCommand_written(2)
        [OF written(1), of c action ip password detach stdout flags]
      show ?thesis
        by (simp add: r_def split: if_splits)
    qed
  qed
  have blocking: "\<forall>b a. Exec Blocking b a \<in> set (events w (snd r)) \<longrightarrow> \<not> (detach \<and> action = ''deploy'')"
  proof (intro allI impI)
    fix b a
    assume ex: "Exec Blocking b a \<in> set (events w (snd r))"
    show "\<not> (detach \<and> action = ''deploy'')"
    proof (cases rule: wTF_cases [of ca w])
      case (failed name e w1 es)
      with ex show ?thesis
        by (simp add: r_def RunAuthenticatedCommand_failed events_append quiet_def)
    next
      case (written name w1)
      with ex RunAuthenticatedCommand_written(2)
        [OF written(1), of c action ip password detach stdout flags]
      show ?thesis
        by (simp add: r_def split: if_splits)
    qed
  qed
  have one: "\<forall>caPath w1 argv.
        writeTempFile ca w = ((caPath, None), w1) \<and>
        argv = [''--non-interactive'', ''--environment'', ''https://'' @ ip, ''--ca-cert'',
                caPath, ''--client'', ''admin'', ''--client-secret'', password,
                ''--deployment'', ''concourse'', action] @ flags \<longrightarrow>
        r = deferred (os_Remove caPath)
              (if detach \<and> action = ''deploy'' then detachedBoshCommand c stdout argv w1
               else boshCommand c stdout argv w1) \<and>
        events w (snd r) =
          [Created caPath,
           Exec (if detach \<and> action = ''deploy'' then Detached else Blocking) (boshPath c) argv,
           Removed caPath]"
  proof (intro allI impI, elim conjE)
    fix caPath w1 argv
    assume t: "writeTempFile ca w = ((caPath, None), w1)"
      and a: "argv = [''--non-interactive'', ''--environment'', ''https://'' @ ip, ''--ca-cert'',
                caPath, ''--client'', ''admin'', ''--client-secret'', password,
                ''--deployment'', ''concourse'', action] @ flags"
    show "r = deferred (os_Remove caPath)
              (if detach \<and> action = ''deploy'' then detachedBoshCommand c stdout argv w1
               else boshCommand c stdout argv w1) \<and>
        events w (snd r) =
          [Created caPath,
           Exec (if detach \<and> action = ''deploy'' then Detached else Blocking) (boshPath c) argv,
           Removed caPath]"
      unfolding r_def a
      by (rule conjI [OF RunAuthenticatedCommand_written(1) [OF t]
            RunAuthenticatedCommand_written(2) [OF t]])
  qed
  show ?thesis by (rule conjI [OF detached conjI [OF blocking one]])
qed

section \<open>The detached command and the argument vectors\<close>

lemma has_prefix_iff: "has_prefix s p \<longleftrightarrow> (\<exists>b. s = p @ b)"
  by (induction s p rule: has_prefix.induct) auto

lemma Contains_iff: "Contains s sub \<longleftrightarrow> (\<exists>a b. s = a @ sub @ b)"
proof (induction s)
  case Nil
  then show ?case by (simp add: has_prefix_iff)
next
  case (Cons c cs)
  show ?case
  proof
    assume "Contains (c # cs) sub"
    then consider "has_prefix (c # cs) sub" | "Contains cs sub" by auto
    then show "\<exists>a b. c # cs = a @ sub @ b"
    proof cases
      case 1
      then obtain b where "c # cs = sub @ b" by (auto simp: has_prefix_iff)
      then have "c # cs = [] @ sub @ b" by simp
      then show ?thesis by blast
    next
      case 2
      with Cons obtain a b where "cs = a @ sub @ b" by blast
      then have "c # cs = (c # a) @ sub @ b" by simp
      then show ?thesis by blast
    qed
  next
    assume "\<exists>a b. c # cs = a @ sub @ b"
    then obtain a b where e: "c # cs = a @ sub @ b" by blast
    show "Contains (c # cs) sub"
    proof (cases a)
      case Nil
      with e have "has_prefix (c # cs) sub" by (auto simp: has_prefix_iff)
      then show ?thesis by simp
    next
      case (Cons x a')
      with e have "cs = a' @ sub @ b" by simp
      with Cons.IH have "Contains cs sub" by blast
      then show ?thesis by simp
    qed
  qed
qed

lemma Write_accepts:
  "accepts k \<Longrightarrow> Write k s = (None, k\<lparr>written := written k @ [s]\<rparr>)"
  "accepts k \<Longrightarrow> accepts (k\<lparr>written := h\<rparr>)"
  by (simp_all add: accepts_def Write_def)

lemma scan_loop_no_marker:
  "accepts k \<Longrightarrow> \<forall>l \<in> set ls. \<not> Contains l marker \<Longrightarrow>
     scan_loop ls k flags =
       (Some (no_task_start flags), k\<lparr>written := written k @ forwarded ls\<rparr>)"
  by (induction ls arbitrary: k) (simp_all add: Write_accepts forwarded_def)

lemma scan_loop_marker:
  "accepts k \<Longrightarrow> \<forall>l \<in> set pre. \<not> Contains l marker \<Longrightarrow> Contains m marker \<Longrightarrow>
     scan_loop (pre @ m # rest) k flags =
       (None, k\<lparr>written := written k @ forwarded (pre @ [m]) @
                  [''Task started, detaching output'' @ [CHR 0x0A]]\<rparr>)"
  by (induction pre arbitrary: k) (simp_all add: Write_accepts forwarded_def)


lemma not_Contains_marker:
  "\<not> Contains l marker \<longleftrightarrow> \<not> (\<exists>a b. l = a @ ''Preparing deployment'' @ b)"
  by (simp add: Contains_iff marker_def)

text \<open>
  Claim C3. In detached mode, once the pipe is open and the process started, and with a
  sink that accepts what is written to it, the runner forwards each line of the standard
  output, followed by a newline, to the sink; at the first line that contains
  \<^verbatim>\<open>Preparing deployment\<close> it writes a notice and returns nil, whatever the lines after
  it and whatever the process does later (it is never waited for). When the output ends
  and no line contained the marker, it returns an error whose message ends with the
  argument list of the invocation, joined by spaces.
\<close>

theorem detachedBoshCommand_detaches_at_marker:
  fixes c :: CLI and flags :: "string list" and stdout :: writer and w :: "'s world"
  defines "cmd \<equiv> execCmd c (boshPath c) flags"
  defines "r \<equiv> detachedBoshCommand c stdout flags w"
  assumes pipe: "pipe_error cmd = None" and start: "start_error cmd = None"
    and sink: "accepts stdout"
  shows
    "(\<forall>pre m rest.
        scan_lines cmd = pre @ m # rest \<and>
        (\<forall>l \<in> set pre. \<not> (\<exists>a b. l = a @ ''Preparing deployment'' @ b)) \<and>
        (\<exists>a b. m = a @ ''Preparing deployment'' @ b) \<longrightarrow>
        fst r = (None, stdout\<lparr>written := written stdout @ forwarded (pre @ [m]) @
                               [''Task started, detaching output'' @ [CHR 0x0A]]\<rparr>)) \<and>
     ((\<forall>l \<in> set (scan_lines cmd). \<not> (\<exists>a b. l = a @ ''Preparing deployment'' @ b)) \<longrightarrow>
        fst r = (Some (Error (''Didn'' @ [CHR 0x27] @
                         ''t detect successful task start in BOSH comand: bosh-cli '' @
                         strings_Join flags '' '')),
                 stdout\<lparr>written := written stdout @ forwarded (scan_lines cmd)\<rparr>)) \<and>
     snd r = w\<lparr>trace := trace w @ [Exec Detached (boshPath c) flags]\<rparr>"
proof -
  have r: "fst r = scan_loop (scan_lines cmd) stdout flags"
    using pipe start by (simp add: r_def cmd_def detachedBoshCommand_def command_def Let_def)
  have found: "\<forall>pre m rest.
        scan_lines cmd = pre @ m # rest \<and>
        (\<forall>l \<in> set pre. \<not> (\<exists>a b. l = a @ ''Preparing deployment'' @ b)) \<and>
        (\<exists>a b. m = a @ ''Preparing deployment'' @ b) \<longrightarrow>
        fst r = (None, stdout\<lparr>written := written stdout @ forwarded (pre @ [m]) @
                               [''Task started, detaching output'' @ [CHR 0x0A]]\<rparr>)"
  proof (intro allI impI, elim conjE)
    fix pre m rest
    assume l: "scan_lines cmd = pre @ m # rest"
      and p: "\<forall>l \<in> set pre. \<not> (\<exists>a b. l = a @ ''Preparing deployment'' @ b)"
      and m: "\<exists>a b. m = a @ ''Preparing deployment'' @ b"
    from p have p': "\<forall>l \<in> set pre. \<not> Contains l marker"
      by (simp add: Contains_iff marker_def)
    from m have m': "Contains m marker"
      by (simp add: Contains_iff marker_def)
    show "fst r = (None, stdout\<lparr>written := written stdout @ forwarded (pre @ [m]) @
                               [''Task started, detaching output'' @ [CHR 0x0A]]\<rparr>)"
      unfolding r l by (rule scan_loop_marker [OF sink p' m'])
  qed
  have ended: "(\<forall>l \<in> set (scan_lines cmd). \<not> (\<exists>a b. l = a @ ''Preparing deployment'' @ b)) \<longrightarrow>
        fst r = (Some (Error (''Didn'' @ [CHR 0x27] @
                         ''t detect successful task start in BOSH comand: bosh-cli '' @
                         strings_Join flags '' '')),
                 stdout\<lparr>written := written stdout @ forwarded (scan_lines cmd)\<rparr>)"
  proof
    assume "\<forall>l \<in> set (scan_lines cmd). \<not> (\<exists>a b. l = a @ ''Preparing deployment'' @ b)"
    then have "\<forall>l \<in> set (scan_lines cmd). \<not> Contains l marker"
      by (simp add: Contains_iff marker_def)
    from scan_loop_no_marker [OF sink this]
    show "fst r = (Some (Error (''Didn'' @ [CHR 0x27] @
                         ''t detect successful task start in BOSH comand: bosh-cli '' @
                         strings_Join flags '' '')),
                 stdout\<lparr>written := written stdout @ forwarded (scan_lines cmd)\<rparr>)"
      unfolding r no_task_start_def .
  qed
  have world: "snd r = w\<lparr>trace := trace w @ [Exec Detached (boshPath c) flags]\<rparr>"
    unfolding r_def by (rule detachedBoshCommand_world)
  show ?thesis by (rule conjI [OF found conjI [OF ended world]])
qed

theorem detachedBoshCommand_detaches_at_marker_witness:
  "pipe_error (execCmd deploying_cli (boshPath deploying_cli) [''deploy'']) = None \<and>
   start_error (execCmd deploying_cli (boshPath deploying_cli) [''deploy'']) = None \<and>
   accepts plain_sink \<and>
   fst (detachedBoshCommand deploying_cli plain_sink [''deploy''] fresh_world) =
     (None, plain_sink\<lparr>written :=
        [''Task 1'' @ [CHR 0x0A], ''Preparing deployment: started'' @ [CHR 0x0A],
         ''Task started, detaching output'' @ [CHR 0x0A]]\<rparr>) \<and>
   fst (detachedBoshCommand stalling_cli plain_sink [''deploy'', ''--no-redact''] fresh_world) =
     (Some (Error (''Didn'' @ [CHR 0x27] @
        ''t detect successful task start in BOSH comand: bosh-cli deploy --no-redact'')),
      plain_sink\<lparr>written := [''Task 1'' @ [CHR 0x0A], ''Error: timed out'' @ [CHR 0x0A]]\<rparr>)"
proof -
  let ?d = "execCmd deploying_cli (boshPath deploying_cli) [''deploy'']"
  let ?s = "execCmd stalling_cli (boshPath stalling_cli) [''deploy'', ''--no-redact'']"
  have pd: "pipe_error ?d = None" and sd: "start_error ?d = None"
    by (simp_all add: deploying_cli_def quiet_process_def)
  have ps: "pipe_error ?s = None" and ss: "start_error ?s = None"
    by (simp_all add: stalling_cli_def quiet_process_def)
  have k: "accepts plain_sink" by (simp add: accepts_def plain_sink_def)
  have lines: "scan_lines ?d = [''Task 1''] @ ''Preparing deployment: started'' # [''Compiling packages'']"
    by (simp add: deploying_cli_def quiet_process_def)
  have before: "\<forall>l \<in> set [''Task 1'']. \<not> (\<exists>a b. l = a @ ''Preparing deployment'' @ b)"
    unfolding not_Contains_marker [symmetric] by (simp add: marker_def)
  have at: "\<exists>a b. ''Preparing deployment: started'' = a @ ''Preparing deployment'' @ b"
    unfolding Contains_iff [symmetric] by simp
  have never: "\<forall>l \<in> set (scan_lines ?s). \<not> (\<exists>a b. l = a @ ''Preparing deployment'' @ b)"
    unfolding not_Contains_marker [symmetric]
    by (simp add: stalling_cli_def quiet_process_def marker_def)
  have "fst (detachedBoshCommand deploying_cli plain_sink [''deploy''] fresh_world) =
     (None, plain_sink\<lparr>written := written plain_sink @
        forwarded ([''Task 1''] @ [''Preparing deployment: started'']) @
        [''Task started, detaching output'' @ [CHR 0x0A]]\<rparr>)"
    using detachedBoshCommand_detaches_at_marker [OF pd sd k, of fresh_world] lines before at
    by blast
  moreover have "fst (detachedBoshCommand stalling_cli plain_sink [''deploy'', ''--no-redact'']
        fresh_world) =
     (Some (Error (''Didn'' @ [CHR 0x27] @
                         ''t detect successful task start in BOSH comand: bosh-cli '' @
                         strings_Join [''deploy'', ''--no-redact''] '' '')),
      plain_sink\<lparr>written := written plain_sink @ forwarded (scan_lines ?s)\<rparr>)"
    using detachedBoshCommand_detaches_at_marker [OF ps ss k, of fresh_world] never
    by blast
  ultimately show ?thesis
    using pd sd k
    by (simp add: forwarded_def plain_sink_def stalling_cli_def quiet_process_def)
qed

lemma fresh_ca_file:
  "writeTempFile ''ca'' fresh_world =
     ((''/tmp/0'', None), snd (writeTempFile ''ca'' fresh_world))"
  by (simp add: run_defs input_defs prod_eq_iff)

theorem RunAuthenticatedCommand_detaches_only_deploy_witness:
  "events fresh_world (snd (RunAuthenticatedCommand passing_cli ''deploy'' ''10.0.0.6''
      ''secret'' ''ca'' True plain_sink [''manifest.yml''] fresh_world)) =
     [Created ''/tmp/0'',
      Exec Detached ''bosh''
        [''--non-interactive'', ''--environment'', ''https://10.0.0.6'', ''--ca-cert'',
         ''/tmp/0'', ''--client'', ''admin'', ''--client-secret'', ''secret'',
         ''--deployment'', ''concourse'', ''deploy'', ''manifest.yml''],
      Removed ''/tmp/0''] \<and>
   events fresh_world (snd (RunAuthenticatedCommand passing_cli ''recreate'' ''10.0.0.6''
      ''secret'' ''ca'' True plain_sink [] fresh_world)) =
     [Created ''/tmp/0'',
      Exec Blocking ''bosh''
        [''--non-interactive'', ''--environment'', ''https://10.0.0.6'', ''--ca-cert'',
         ''/tmp/0'', ''--client'', ''admin'', ''--client-secret'', ''secret'',
         ''--deployment'', ''concourse'', ''recreate''],
      Removed ''/tmp/0''] \<and>
   events fresh_world (snd (RunAuthenticatedCommand passing_cli ''deploy'' ''10.0.0.6''
      ''secret'' ''ca'' False plain_sink [] fresh_world)) =
     [Created ''/tmp/0'',
      Exec Blocking ''bosh''
        [''--non-interactive'', ''--environment'', ''https://10.0.0.6'', ''--ca-cert'',
         ''/tmp/0'', ''--client'', ''admin'', ''--client-secret'', ''secret'',
         ''--deployment'', ''concourse'', ''deploy''],
      Removed ''/tmp/0'']"
proof -
  have d: "events fresh_world (snd (RunAuthenticatedCommand passing_cli ''deploy'' ''10.0.0.6''
      ''secret'' ''ca'' True plain_sink [''manifest.yml''] fresh_world)) =
     [Created ''/tmp/0'',
      Exec (if True \<and> ''deploy'' = ''deploy'' then Detached else Blocking) (boshPath passing_cli)
        ([''--non-interactive'', ''--environment'', ''https://'' @ ''10.0.0.6'', ''--ca-cert'',
          ''/tmp/0'', ''--client'', ''admin'', ''--client-secret'', ''secret'',
          ''--deployment'', ''concourse'', ''deploy''] @ [''manifest.yml'']),
      Removed ''/tmp/0'']"
    using RunAuthenticatedCommand_detaches_only_deploy [where c = passing_cli and action = "''deploy''"
        and ip = "''10.0.0.6''" and password = "''secret''" and ca = "''ca''" and detach = True
        and stdout = plain_sink and flags = "[''manifest.yml'']" and w = fresh_world]
      fresh_ca_file
    by blast
  have r: "events fresh_world (snd (RunAuthenticatedCommand passing_cli ''recreate'' ''10.0.0.6''
      ''secret'' ''ca'' True plain_sink [] fresh_world)) =
     [Created ''/tmp/0'',
      Exec (if True \<and> ''recreate'' = ''deploy'' then Detached else Blocking) (boshPath passing_cli)
        ([''--non-interactive'', ''--environment'', ''https://'' @ ''10.0.0.6'', ''--ca-cert'',
          ''/tmp/0'', ''--client'', ''admin'', ''--client-secret'', ''secret'',
          ''--deployment'', ''concourse'', ''recreate''] @ []),
      Removed ''/tmp/0'']"
    using RunAuthenticatedCommand_detaches_only_deploy [where c = passing_cli and action = "''recreate''"
        and ip = "''10.0.0.6''" and password = "''secret''" and ca = "''ca''" and detach = True
        and stdout = plain_sink and flags = "[]" and w = fresh_world]
      fresh_ca_file
    by blast
  have b: "events fresh_world (snd (RunAuthenticatedCommand passing_cli ''deploy'' ''10.0.0.6''
      ''secret'' ''ca'' False plain_sink [] fresh_world)) =
     [Created ''/tmp/0'',
      Exec (if False \<and> ''deploy'' = ''deploy'' then Detached else Blocking) (boshPath passing_cli)
        ([''--non-interactive'', ''--environment'', ''https://'' @ ''10.0.0.6'', ''--ca-cert'',
          ''/tmp/0'', ''--client'', ''admin'', ''--client-secret'', ''secret'',
          ''--deployment'', ''concourse'', ''deploy''] @ []),
      Removed ''/tmp/0'']"
    using RunAuthenticatedCommand_detaches_only_deploy [where c = passing_cli and action = "''deploy''"
        and ip = "''10.0.0.6''" and password = "''secret''" and ca = "''ca''" and detach = False
        and stdout = plain_sink and flags = "[]" and w = fresh_world]
      fresh_ca_file
    by blast
  show ?thesis
    unfolding d r b by (simp add: passing_cli_def)
qed

text \<open>
  The arguments that the authenticated operations pass to the external binary, once
  their temporary files are written.
\<close>

lemma Recreate_argv:
  assumes "writeTempFile ca w = ((caPath, None), w1)"
  shows "events w (snd (Recreate c config ip password ca w)) =
           [Created caPath,
            Exec Blocking (boshPath c)
              [''--non-interactive'', ''--environment'', ''https://'' @ ip, ''--ca-cert'', caPath,
               ''--client'', ''admin'', ''--client-secret'', password,
               ''--deployment'', ''concourse'', ''recreate''],
            Removed caPath]"
  using assms wTF_success(3) [OF assms]
  by (simp add: Recreate_def deferred_def command_def cmd_Run_def os_Remove_def Let_def events_def)

lemma UploadConcourseStemcell_argv:
  assumes "ConfigureConcourseStemcell config = (stemcell, None)"
    and "writeTempFile ca w = ((caPath, None), w1)"
  shows "events w (snd (UploadConcourseStemcell c config ip password ca w)) =
           [Created caPath,
            Exec Blocking (boshPath c)
              [''--non-interactive'', ''--environment'', ''https://'' @ ip, ''--ca-cert'', caPath,
               ''--client'', ''admin'', ''--client-secret'', password,
               ''upload-stemcell'', stemcell],
            Removed caPath]"
  using assms wTF_success(3) [OF assms(2)]
  by (simp add: UploadConcourseStemcell_def deferred_def command_def cmd_Run_def os_Remove_def
        Let_def events_def)

lemma UpdateCloudConfig_argv:
  assumes "ConfigureDirectorCloudConfig config = (cloudConfig, None)"
    and "writeTempFile cloudConfig w = ((cloudConfigPath, None), w1)"
    and "writeTempFile ca w1 = ((caPath, None), w2)"
  shows "events w (snd (UpdateCloudConfig c config ip password ca w)) =
           [Created cloudConfigPath, Created caPath,
            Exec Blocking (boshPath c)
              [''--non-interactive'', ''--environment'', ''https://'' @ ip, ''--ca-cert'', caPath,
               ''--client'', ''admin'', ''--client-secret'', password,
               ''update-cloud-config'', cloudConfigPath],
            Removed caPath, Removed cloudConfigPath]"
  using assms wTF_success(3) [OF assms(2)] wTF_success(3) [OF assms(3)]
  by (simp add: UpdateCloudConfig_def deferred_def command_def cmd_Run_def os_Remove_def
        Let_def events_def)

lemma Locks_argv:
  assumes "writeTempFile ca w = ((caPath, None), w1)"
  shows "events w (snd (Locks c config ip password ca w)) =
           [Created caPath,
            Exec Blocking (boshPath c)
              [''--environment'', ip, ''--ca-cert'', caPath, ''--client'', ''admin'',
               ''--client-secret'', password, ''locks'', ''--json''],
            Removed caPath]"
  using assms wTF_success(3) [OF assms]
  by (simp add: Locks_def deferred_def command_def cmd_Run_def os_Remove_def Let_def events_def
        split: option.splits)

text \<open>
  Claim C4 against the code: \<^verbatim>\<open>Locks\<close>, called with the director at \<^verbatim>\<open>10.0.0.6\<close>, passes
  the address to the binary as it is, without \<^verbatim>\<open>https://\<close> and without
  \<^verbatim>\<open>--non-interactive\<close>, where \<^verbatim>\<open>Recreate\<close> on the same input passes both.
\<close>

theorem Locks_passes_bare_ip:
  "events fresh_world (snd (Locks passing_cli plain_config ''10.0.0.6'' ''secret'' ''ca''
      fresh_world)) =
     [Created ''/tmp/0'',
      Exec Blocking ''bosh''
        [''--environment'', ''10.0.0.6'', ''--ca-cert'', ''/tmp/0'', ''--client'', ''admin'',
         ''--client-secret'', ''secret'', ''locks'', ''--json''],
      Removed ''/tmp/0''] \<and>
   events fresh_world (snd (Recreate passing_cli plain_config ''10.0.0.6'' ''secret'' ''ca''
      fresh_world)) =
     [Created ''/tmp/0'',
      Exec Blocking ''bosh''
        [''--non-interactive'', ''--environment'', ''https://10.0.0.6'', ''--ca-cert'',
         ''/tmp/0'', ''--client'', ''admin'', ''--client-secret'', ''secret'',
         ''--deployment'', ''concourse'', ''recreate''],
      Removed ''/tmp/0'']"
  using Locks_argv [OF fresh_ca_file, of passing_cli plain_config "''10.0.0.6''" "''secret''"]
    Recreate_argv [OF fresh_ca_file, of passing_cli plain_config "''10.0.0.6''" "''secret''"]
  by (simp add: passing_cli_def)

end
